theory Spec2Isabelle
  imports Complex_Main "HOL-Library.Word"
begin

unbundle bit_operations_syntax

section \<open>Doubles, errors and the object catalogue\<close>

text \<open>
  A C++ \<^verbatim>\<open>double\<close>. The special values are kept apart, because the controller uses them:
  \<^verbatim>\<open>base::unknown<double>()\<close> is the quiet NaN, \<^verbatim>\<open>base::isUnknown\<close> is
  \<^verbatim>\<open>std::isnan\<close>, \<^verbatim>\<open>base::infinity<double>()\<close> is the positive infinity.
  Finite values are exact reals: rounding, overflow to infinity and the sign of zero are
  not modelled.
\<close>

datatype dbl = Finite real | PosInf | NegInf | NaN

definition unknown :: dbl where
  "unknown = NaN"

definition isUnknown :: "dbl \<Rightarrow> bool" where
  "isUnknown x = (x = NaN)"

definition infinity :: dbl where
  "infinity = PosInf"

fun dneg :: "dbl \<Rightarrow> dbl" where
  "dneg (Finite a) = Finite (- a)"
| "dneg PosInf = NegInf"
| "dneg NegInf = PosInf"
| "dneg NaN = NaN"

fun dmul :: "dbl \<Rightarrow> dbl \<Rightarrow> dbl" where
  "dmul NaN _ = NaN"
| "dmul _ NaN = NaN"
| "dmul (Finite a) (Finite b) = Finite (a * b)"
| "dmul (Finite a) PosInf = (if a = 0 then NaN else if 0 < a then PosInf else NegInf)"
| "dmul (Finite a) NegInf = (if a = 0 then NaN else if 0 < a then NegInf else PosInf)"
| "dmul PosInf (Finite b) = (if b = 0 then NaN else if 0 < b then PosInf else NegInf)"
| "dmul NegInf (Finite b) = (if b = 0 then NaN else if 0 < b then NegInf else PosInf)"
| "dmul PosInf PosInf = PosInf"
| "dmul PosInf NegInf = NegInf"
| "dmul NegInf PosInf = NegInf"
| "dmul NegInf NegInf = PosInf"

fun ddiv :: "dbl \<Rightarrow> dbl \<Rightarrow> dbl" where
  "ddiv NaN _ = NaN"
| "ddiv _ NaN = NaN"
| "ddiv (Finite a) (Finite b) =
     (if b = 0 then (if a = 0 then NaN else if 0 < a then PosInf else NegInf)
      else Finite (a / b))"
| "ddiv (Finite a) PosInf = Finite 0"
| "ddiv (Finite a) NegInf = Finite 0"
| "ddiv PosInf (Finite b) = (if 0 \<le> b then PosInf else NegInf)"
| "ddiv NegInf (Finite b) = (if 0 \<le> b then NegInf else PosInf)"
| "ddiv PosInf PosInf = NaN"
| "ddiv PosInf NegInf = NaN"
| "ddiv NegInf PosInf = NaN"
| "ddiv NegInf NegInf = NaN"

text \<open>The comparison \<^verbatim>\<open><\<close> of doubles: false as soon as one side is NaN.\<close>

fun dless :: "dbl \<Rightarrow> dbl \<Rightarrow> bool" where
  "dless NaN _ = False"
| "dless _ NaN = False"
| "dless (Finite a) (Finite b) = (a < b)"
| "dless (Finite a) PosInf = True"
| "dless (Finite a) NegInf = False"
| "dless PosInf _ = False"
| "dless NegInf NegInf = False"
| "dless NegInf _ = True"

text \<open>Conversion of a double to an integer type drops the fraction (towards zero).\<close>

definition trunc :: "real \<Rightarrow> int" where
  "trunc r = (if 0 \<le> r then \<lfloor>r\<rfloor> else \<lceil>r\<rceil>)"

text \<open>
  \<^verbatim>\<open>static_cast<int16_t>(x)\<close> of a double. The conversion is defined when the truncated
  value is an \<^verbatim>\<open>int16_t\<close>; otherwise (NaN, an infinity, a value too large) C++ leaves the
  behaviour undefined, which is \<open>None\<close> here.
\<close>

definition static_cast_int16 :: "dbl \<Rightarrow> 16 word option" where
  "static_cast_int16 x =
     (case x of
        Finite r \<Rightarrow>
          (if - 32768 \<le> trunc r \<and> trunc r \<le> 32767 then Some (word_of_int (trunc r)) else None)
      | _ \<Rightarrow> None)"

text \<open>
  What a call can raise: \<^verbatim>\<open>std::logic_error\<close> (a precondition is not met),
  \<^verbatim>\<open>std::out_of_range\<close>, \<^verbatim>\<open>std::invalid_argument\<close>, the engine's
  \<^verbatim>\<open>canopen_master::ObjectNotRead\<close>, and \<open>undefined_behaviour\<close> for the places where the
  source steps outside what C++ defines (an unchecked index, a conversion out of range).
\<close>

datatype error =
  logic_error | out_of_range | invalid_argument | ObjectNotRead | undefined_behaviour

text \<open>The object types of \<^verbatim>\<open>Objects.hpp\<close> that \<^verbatim>\<open>Controller.cpp\<close> names.\<close>

datatype object =
    Heartbeat
  | StatusWord
  | ModesOfOperation
  | PositionEncoderResolutionNum
  | PositionEncoderResolutionDen
  | VelocityEncoderResolutionNum
  | VelocityEncoderResolutionDen
  | AccelerationFactorNum
  | AccelerationFactorDen
  | GearRatioNum
  | GearRatioDen
  | FeedConstantNum
  | FeedConstantDen
  | VelocityFactorNum
  | VelocityFactorDen
  | MotorRatedCurrent
  | MotorRatedTorque
  | PositionActualInternalValue
  | VelocityActualValue
  | CurrentActualValue
  | SoftwarePositionLimitMin
  | SoftwarePositionLimitMax
  | MaxMotorSpeed
  | MaxAcceleration
  | MaxDeceleration
  | MaxCurrent
  | TargetPosition
  | TargetVelocity
  | TargetTorque

text \<open>
  \<^verbatim>\<open>Objects.hpp\<close> and \<^verbatim>\<open>Update.hpp\<close> are not part of the available sources, so what they
  declare is a parameter of every operation below: for each object its index, sub-index,
  the size in bytes and the signedness of its integer \<^verbatim>\<open>OBJECT_TYPE\<close> and its update
  group, and the group masks the controller tests.
\<close>

record decls =
  OBJECT_ID :: "object \<Rightarrow> 16 word"
  OBJECT_SUB_ID :: "object \<Rightarrow> 8 word"
  OBJECT_SIZE :: "object \<Rightarrow> nat"
  OBJECT_SIGNED :: "object \<Rightarrow> bool"
  UPDATE_ID :: "object \<Rightarrow> 64 word"
  UPDATE_FACTORS :: "64 word"
  UPDATE_JOINT_POSITION :: "64 word"
  UPDATE_JOINT_VELOCITY :: "64 word"
  UPDATE_JOINT_CURRENT :: "64 word"

type_synonym object_key = "16 word \<times> 8 word"

definition key :: "decls \<Rightarrow> object \<Rightarrow> object_key" where
  "key d ob = (OBJECT_ID d ob, OBJECT_SUB_ID d ob)"


section \<open>Factors, MotorParameters and Update\<close>

text \<open>
  Modelled from the spec: \<^verbatim>\<open>MotorParameters.hpp\<close> is not part of the available sources.
  The spec lists the overrides (encoder ticks and revolutions, gear ratios, feed constant,
  torque constant); the field names are those \<^verbatim>\<open>Controller::setMotorParameters\<close> reads.
  The six ratio terms are integers, as the raw objects they are written to; the torque
  constant is a double that may be unknown.
\<close>

record MotorParameters =
  encoderTicks :: int
  encoderRevolutions :: int
  gearMotorShaftRevolutions :: int
  gearDrivingShaftRevolutions :: int
  feedLength :: int
  feedDrivingShaftRevolutions :: int
  torqueConstant :: dbl

text \<open>
  Modelled from the spec: the default-constructed \<^verbatim>\<open>MotorParameters\<close> (the header is
  missing). Nothing is overridden: every ratio term is zero and the torque constant is
  unknown, the two values \<^verbatim>\<open>setMotorParameters\<close> skips.
\<close>

definition MotorParameters_default :: MotorParameters where
  "MotorParameters_default =
     \<lparr> encoderTicks = 0, encoderRevolutions = 0, gearMotorShaftRevolutions = 0,
       gearDrivingShaftRevolutions = 0, feedLength = 0, feedDrivingShaftRevolutions = 0,
       torqueConstant = unknown \<rparr>"

text \<open>
  Modelled from the spec: \<^verbatim>\<open>Factors.hpp\<close> is not part of the available sources. The
  fields are those \<^verbatim>\<open>Controller::computeFactors\<close>, \<^verbatim>\<open>Controller::setEncoderScaleFactor\<close>
  and \<^verbatim>\<open>Main.cpp\<close> use; the spec (section 3) names the same nine.
\<close>

record Factors =
  encoderTicks :: int
  encoderRevolutions :: int
  gearMotorShaftRevolutions :: int
  gearDrivingShaftRevolutions :: int
  feedLength :: int
  feedDrivingShaftRevolutions :: int
  ratedTorque :: dbl
  ratedCurrent :: dbl
  encoderScaleFactor :: dbl

text \<open>
  Modelled from the spec: the default-constructed \<^verbatim>\<open>Factors\<close>. The spec seeds the
  ratios with identity defaults, gives \<open>encoderScaleFactor\<close> the default 1 and lets the
  rated torque be unknown until it is queried or supplied. The spec does not give the
  default of the rated current; it is unknown here, like the rated torque.
\<close>

definition Factors_default :: Factors where
  "Factors_default =
     \<lparr> encoderTicks = 1, encoderRevolutions = 1, gearMotorShaftRevolutions = 1,
       gearDrivingShaftRevolutions = 1, feedLength = 1, feedDrivingShaftRevolutions = 1,
       ratedTorque = unknown, ratedCurrent = unknown, encoderScaleFactor = Finite 1 \<rparr>"

text \<open>
  Modelled from the spec: \<^verbatim>\<open>Factors::update()\<close> (\<^verbatim>\<open>Factors.cpp\<close> is not part of the
  available sources). The spec makes recomputation a pure function of the stored ratios
  and rated values, with no hidden state; the conversions below read the nine fields
  directly, so recomputation leaves the record as it is.
\<close>

definition Factors_update :: "Factors \<Rightarrow> Factors" where
  "Factors_update f = f"

text \<open>
  Modelled from the spec: \<^verbatim>\<open>Update.hpp\<close> is not part of the available sources. The result
  of \<^verbatim>\<open>Controller::process\<close> is either the acknowledgment of a write, built by
  \<^verbatim>\<open>Update::Ack\<close> from an index and a sub-index, or the mask of the updated groups, built
  by \<^verbatim>\<open>Update::UpdatedObjects\<close>; a mask of zero is "no relevant change".
\<close>

datatype Update = Ack "16 word" "8 word" | UpdatedObjects "64 word"

text \<open>
  Modelled from the spec: the accessors of \<^verbatim>\<open>Update\<close> that \<^verbatim>\<open>Main.cpp\<close> calls. An
  acknowledgment has no updated group; \<^verbatim>\<open>hasOneUpdated\<close> holds when the result shares a
  bit with the mask asked for.
\<close>

fun isAck :: "Update \<Rightarrow> bool" where
  "isAck (Ack _ _) = True"
| "isAck (UpdatedObjects _) = False"

fun updatedObjects :: "Update \<Rightarrow> 64 word" where
  "updatedObjects (Ack _ _) = 0"
| "updatedObjects (UpdatedObjects m) = m"

definition hasOneUpdated :: "Update \<Rightarrow> 64 word \<Rightarrow> bool" where
  "hasOneUpdated u g = (updatedObjects u AND g \<noteq> 0)"

section \<open>The CANopen engine, as the controller uses it\<close>

text \<open>
  \<^verbatim>\<open>canopen_master::StateMachine\<close> is an external library. Its object dictionary maps an
  index and sub-index to the last raw value; \<^verbatim>\<open>get\<close> raises \<^verbatim>\<open>ObjectNotRead\<close> for an entry
  that was never written. Raw values are mathematical integers: the width of each
  \<^verbatim>\<open>OBJECT_TYPE\<close> is declared in \<^verbatim>\<open>Objects.hpp\<close>. A PDO mapping is the list of its entries
  (index, sub-index, size).
\<close>

type_synonym PDOMapping = "(16 word \<times> 8 word \<times> nat) list"

record StateMachine =
  nodeId :: "8 word"
  objects :: "object_key \<rightharpoonup> int"
  rpdoMappings :: "int \<rightharpoonup> PDOMapping"

definition sm_get :: "StateMachine \<Rightarrow> object_key \<Rightarrow> error + int" where
  "sm_get sm k = (case objects sm k of None \<Rightarrow> Inl ObjectNotRead | Some v \<Rightarrow> Inr v)"

definition sm_set :: "object_key \<Rightarrow> int \<Rightarrow> StateMachine \<Rightarrow> StateMachine" where
  "sm_set k v sm = sm\<lparr>objects := (objects sm)(k \<mapsto> v)\<rparr>"

text \<open>
  The result of the engine's \<^verbatim>\<open>process\<close>: a mode tag and the objects whose cached value
  changed. \<open>PROCESSED_OTHER\<close> stands for every mode the controller's switch sends to
  \<^verbatim>\<open>default\<close>.
\<close>

datatype update_mode = PROCESSED_HEARTBEAT | PROCESSED_SDO_INITIATE_DOWNLOAD | PROCESSED_OTHER

record sm_update =
  mode :: update_mode
  updated :: "object_key list"

text \<open>The messages the controller asks the engine to build, kept symbolic.\<close>

datatype message = Download16 "16 word" "8 word" "16 word"

datatype 'p pdo_messages = ConfigurePDO bool int 'p PDOMapping

text \<open>Sequencing of calls that can raise.\<close>

definition ebind :: "error + 'a \<Rightarrow> ('a \<Rightarrow> error + 'b) \<Rightarrow> error + 'b" where
  "ebind m f = (case m of Inl e \<Rightarrow> Inl e | Inr x \<Rightarrow> f x)"


section \<open>The controller\<close>

record Controller =
  mCanOpen :: StateMachine
  mRatedTorque :: dbl
  mFactors :: Factors
  mZeroPosition :: int
  mMotorParameters :: MotorParameters

definition getRaw :: "decls \<Rightarrow> object \<Rightarrow> Controller \<Rightarrow> error + int" where
  "getRaw d ob c = sm_get (mCanOpen c) (key d ob)"

definition setRaw :: "decls \<Rightarrow> object \<Rightarrow> int \<Rightarrow> Controller \<Rightarrow> Controller" where
  "setRaw d ob v c = c\<lparr>mCanOpen := sm_set (key d ob) v (mCanOpen c)\<rparr>"

text \<open>
  \<^verbatim>\<open>Controller::Controller(nodeId)\<close>: the engine starts with an empty dictionary, the rated
  torque member is unknown, the factors and the motor parameters are default-constructed,
  and the body writes 1 to eight raw objects.
\<close>

definition Controller_new :: "decls \<Rightarrow> 8 word \<Rightarrow> Controller" where
  "Controller_new d n =
     (setRaw d MotorRatedTorque 1
     (setRaw d MotorRatedCurrent 1
     (setRaw d FeedConstantDen 1
     (setRaw d FeedConstantNum 1
     (setRaw d GearRatioDen 1
     (setRaw d GearRatioNum 1
     (setRaw d PositionEncoderResolutionDen 1
     (setRaw d PositionEncoderResolutionNum 1
       \<lparr> mCanOpen = \<lparr> nodeId = n, objects = Map.empty, rpdoMappings = Map.empty \<rparr>,
         mRatedTorque = unknown,
         mFactors = Factors_default,
         mZeroPosition = 0,
         mMotorParameters = MotorParameters_default \<rparr>))))))))"

definition setRatedTorque :: "dbl \<Rightarrow> Controller \<Rightarrow> Controller" where
  "setRatedTorque rt c = c\<lparr>mRatedTorque := rt\<rparr>"

definition getRatedTorque :: "Controller \<Rightarrow> dbl" where
  "getRatedTorque c = mRatedTorque c"

text \<open>
  \<^verbatim>\<open>Controller::setTorqueTarget\<close>. The test reads the rated torque of the cached factors;
  the bounds are the source's, -32767 and 32768.
\<close>

definition setTorqueTarget :: "decls \<Rightarrow> dbl \<Rightarrow> Controller \<Rightarrow> error + message" where
  "setTorqueTarget d target c =
     (if isUnknown (ratedTorque (mFactors c)) then Inl logic_error
      else
        let canopen_target = dmul (ddiv target (ratedTorque (mFactors c))) (Finite 1000) in
        if dless canopen_target (Finite (- 32767)) \<or> dless (Finite 32768) canopen_target
        then Inl out_of_range
        else
          (case static_cast_int16 canopen_target of
             None \<Rightarrow> Inl undefined_behaviour
           | Some v \<Rightarrow> Inr (Download16 (OBJECT_ID d TargetTorque) (OBJECT_SUB_ID d TargetTorque) v)))"

text \<open>\<^verbatim>\<open>Controller::computeFactors\<close>: a fresh \<^verbatim>\<open>Factors\<close>, eight reads, then \<^verbatim>\<open>update()\<close>.\<close>

definition computeFactors :: "decls \<Rightarrow> Controller \<Rightarrow> error + Factors" where
  "computeFactors d c =
     ebind (getRaw d PositionEncoderResolutionNum c) (\<lambda>v1.
     ebind (getRaw d PositionEncoderResolutionDen c) (\<lambda>v2.
     ebind (getRaw d GearRatioNum c) (\<lambda>v3.
     ebind (getRaw d GearRatioDen c) (\<lambda>v4.
     ebind (getRaw d FeedConstantNum c) (\<lambda>v5.
     ebind (getRaw d FeedConstantDen c) (\<lambda>v6.
     ebind (getRaw d MotorRatedTorque c) (\<lambda>v7.
     ebind (getRaw d MotorRatedCurrent c) (\<lambda>v8.
       Inr (Factors_update
         (Factors_default\<lparr>
            encoderTicks := v1,
            encoderRevolutions := v2,
            gearMotorShaftRevolutions := v3,
            gearDrivingShaftRevolutions := v4,
            feedLength := v5,
            feedDrivingShaftRevolutions := v6,
            ratedTorque := ddiv (Finite (of_int v7)) (Finite 1000),
            ratedCurrent := ddiv (Finite (of_int v8)) (Finite 1000) \<rparr>))))))))))"

text \<open>
  The values of the integer \<^verbatim>\<open>OBJECT_TYPE\<close> of an object, from its size and signedness,
  and the reduction of an integer into that range (modulo two to the width).
\<close>

definition object_min :: "decls \<Rightarrow> object \<Rightarrow> int" where
  "object_min d ob =
     (if OBJECT_SIGNED d ob then - (2 ^ (8 * OBJECT_SIZE d ob) div 2) else 0)"

definition object_max :: "decls \<Rightarrow> object \<Rightarrow> int" where
  "object_max d ob =
     (if OBJECT_SIGNED d ob then 2 ^ (8 * OBJECT_SIZE d ob) div 2 - 1
      else 2 ^ (8 * OBJECT_SIZE d ob) - 1)"

definition to_object_type :: "decls \<Rightarrow> object \<Rightarrow> int \<Rightarrow> int" where
  "to_object_type d ob v =
     (if OBJECT_SIGNED d ob
      then (v + 2 ^ (8 * OBJECT_SIZE d ob) div 2) mod 2 ^ (8 * OBJECT_SIZE d ob)
             - 2 ^ (8 * OBJECT_SIZE d ob) div 2
      else v mod 2 ^ (8 * OBJECT_SIZE d ob))"

text \<open>
  The implicit conversion of the double \<^verbatim>\<open>current_mA * torqueConstant\<close> to the integer
  \<^verbatim>\<open>OBJECT_TYPE\<close> of an object. The fraction is dropped; a value inside the range of the
  type is kept. Outside the range C++ leaves the conversion undefined: the value here is
  the truncated double reduced modulo two to the width, which is what the compiled code
  stores for magnitudes below 2^63 (5e9 becomes 705032704 and -2 becomes 4294967294 in an
  unsigned 32-bit object). NaN and the infinities have no integer part and stay undefined.
  The product itself is exact here, where the source rounds it to a double.
\<close>

definition double_to_raw :: "decls \<Rightarrow> object \<Rightarrow> dbl \<Rightarrow> int option" where
  "double_to_raw d ob x =
     (case x of Finite r \<Rightarrow> Some (to_object_type d ob (trunc r)) | _ \<Rightarrow> None)"

definition to_uint64 :: "int \<Rightarrow> int" where
  "to_uint64 v = v mod 2 ^ 64"

text \<open>The six conditional writes of \<^verbatim>\<open>setMotorParameters\<close>: a zero parameter is skipped.\<close>

definition setRawIf :: "decls \<Rightarrow> object \<Rightarrow> int \<Rightarrow> Controller \<Rightarrow> Controller" where
  "setRawIf d ob v c = (if v \<noteq> 0 then setRaw d ob v c else c)"

definition applyRatios :: "decls \<Rightarrow> MotorParameters \<Rightarrow> Controller \<Rightarrow> Controller" where
  "applyRatios d p c =
     setRawIf d FeedConstantDen (MotorParameters.feedDrivingShaftRevolutions p)
     (setRawIf d FeedConstantNum (MotorParameters.feedLength p)
     (setRawIf d GearRatioDen (MotorParameters.gearDrivingShaftRevolutions p)
     (setRawIf d GearRatioNum (MotorParameters.gearMotorShaftRevolutions p)
     (setRawIf d PositionEncoderResolutionDen (MotorParameters.encoderRevolutions p)
     (setRawIf d PositionEncoderResolutionNum (MotorParameters.encoderTicks p) c)))))"

text \<open>
  The torque constant, when known: the rated torque object becomes the rated current
  (read as \<^verbatim>\<open>uint64_t\<close>) times the constant, converted to the type of the object. The
  read is outside the \<^verbatim>\<open>try\<close> block, so \<^verbatim>\<open>ObjectNotRead\<close> leaves the method.
\<close>

definition applyTorqueConstant :: "decls \<Rightarrow> MotorParameters \<Rightarrow> Controller \<Rightarrow> error + Controller" where
  "applyTorqueConstant d p c =
     (if \<not> isUnknown (torqueConstant p) then
        ebind (getRaw d MotorRatedCurrent c) (\<lambda>v.
          let current_mA = to_uint64 v in
          (case double_to_raw d MotorRatedTorque
                  (dmul (Finite (of_int current_mA)) (torqueConstant p)) of
             None \<Rightarrow> Inl undefined_behaviour
           | Some t \<Rightarrow> Inr (setRaw d MotorRatedTorque t c)))
      else Inr c)"

text \<open>
  The end of \<^verbatim>\<open>setMotorParameters\<close>: the factors are recomputed, and \<^verbatim>\<open>ObjectNotRead\<close> is
  caught and dropped, leaving the cached factors as they were.
\<close>

definition recomputeFactors :: "decls \<Rightarrow> Controller \<Rightarrow> error + Controller" where
  "recomputeFactors d c =
     (case computeFactors d c of
        Inr f \<Rightarrow> Inr (c\<lparr>mFactors := f\<rparr>)
      | Inl ObjectNotRead \<Rightarrow> Inr c
      | Inl e \<Rightarrow> Inl e)"

definition setMotorParameters :: "decls \<Rightarrow> MotorParameters \<Rightarrow> Controller \<Rightarrow> error + Controller" where
  "setMotorParameters d parameters c =
     ebind (applyTorqueConstant d parameters
              (applyRatios d parameters (c\<lparr>mMotorParameters := parameters\<rparr>)))
       (recomputeFactors d)"

definition getFactors :: "Controller \<Rightarrow> Factors" where
  "getFactors c = mFactors c"

definition setEncoderScaleFactor :: "dbl \<Rightarrow> Controller \<Rightarrow> Controller" where
  "setEncoderScaleFactor scale c =
     c\<lparr>mFactors := Factors_update ((mFactors c)\<lparr>encoderScaleFactor := scale\<rparr>)\<rparr>"


subsection \<open>Processing an incoming message\<close>

text \<open>
  \<^verbatim>\<open>fullId\<close> of the loop: the index shifted left by eight bits, or-ed with the sub-index,
  in 32 bits.
\<close>

definition fullId :: "object_key \<Rightarrow> 32 word" where
  "fullId k = push_bit 8 (ucast (fst k)) OR ucast (snd k)"

text \<open>The cases of the inner switch, in the order of the source.\<close>

definition sdo_cases :: "object list" where
  "sdo_cases =
     [StatusWord, ModesOfOperation,
      PositionEncoderResolutionNum, PositionEncoderResolutionDen,
      VelocityEncoderResolutionNum, VelocityEncoderResolutionDen,
      AccelerationFactorNum, AccelerationFactorDen,
      GearRatioNum, GearRatioDen,
      FeedConstantNum, FeedConstantDen,
      VelocityFactorNum, VelocityFactorDen,
      MotorRatedCurrent, MotorRatedTorque,
      PositionActualInternalValue, VelocityActualValue, CurrentActualValue,
      SoftwarePositionLimitMin, SoftwarePositionLimitMax,
      MaxMotorSpeed, MaxAcceleration, MaxDeceleration, MaxCurrent]"

definition sdo_update :: "decls \<Rightarrow> 32 word \<Rightarrow> 64 word" where
  "sdo_update d fid =
     (case find (\<lambda>ob. fullId (key d ob) = fid) sdo_cases of
        Some ob \<Rightarrow> UPDATE_ID d ob
      | None \<Rightarrow> 0)"

definition mode_update :: "decls \<Rightarrow> update_mode \<Rightarrow> 64 word" where
  "mode_update d m = (if m = PROCESSED_HEARTBEAT then 0 OR UPDATE_ID d Heartbeat else 0)"

definition classify :: "decls \<Rightarrow> sm_update \<Rightarrow> 64 word" where
  "classify d cu =
     fold (\<lambda>k u. u OR sdo_update d (fullId k)) (updated cu) (mode_update d (mode cu))"

text \<open>
  \<^verbatim>\<open>Controller::process\<close>. The engine's own \<^verbatim>\<open>process\<close> is the parameter \<open>eng\<close>: it
  takes the message and the engine state and gives its update and the new state. On an
  acknowledgment the source returns \<^verbatim>\<open>updated[0]\<close> without looking at the size of the
  list.
\<close>

definition process ::
  "decls \<Rightarrow> ('m \<Rightarrow> StateMachine \<Rightarrow> sm_update \<times> StateMachine) \<Rightarrow> 'm \<Rightarrow> Controller
     \<Rightarrow> error + (Update \<times> Controller)" where
  "process d eng msg c =
     (let (canUpdate, sm) = eng msg (mCanOpen c);
          c1 = c\<lparr>mCanOpen := sm\<rparr>
      in
        if mode canUpdate = PROCESSED_SDO_INITIATE_DOWNLOAD then
          (case updated canUpdate of
             [] \<Rightarrow> Inl undefined_behaviour
           | ob # _ \<Rightarrow> Inr (Ack (fst ob) (snd ob), c1))
        else
          let update = classify d canUpdate in
          if update AND UPDATE_FACTORS d \<noteq> 0 then
            ebind (setMotorParameters d (mMotorParameters c1) c1)
              (\<lambda>c2. Inr (UpdatedObjects update, c2))
          else Inr (UpdatedObjects update, c1))"


section \<open>Conversions between raw and physical values\<close>

text \<open>
  Modelled from the spec: \<^verbatim>\<open>Factors::rawToEncoder\<close> (\<^verbatim>\<open>Factors.cpp\<close> is not part of the
  available sources). Spec, section 4.2: raw * encoderRevolutions *
  gearDrivingShaftRevolutions * feedLength / (encoderTicks * gearMotorShaftRevolutions *
  feedDrivingShaftRevolutions) * encoderScaleFactor; a conversion fails, rather than
  produce garbage, when a denominator is zero.
\<close>

definition rawToEncoder :: "Factors \<Rightarrow> int \<Rightarrow> error + dbl" where
  "rawToEncoder f x =
     (if encoderTicks f = 0 \<or> gearMotorShaftRevolutions f = 0 \<or> feedDrivingShaftRevolutions f = 0
      then Inl logic_error
      else Inr (dmul
        (Finite (of_int (x * encoderRevolutions f * gearDrivingShaftRevolutions f * feedLength f)
           / of_int (encoderTicks f * gearMotorShaftRevolutions f * feedDrivingShaftRevolutions f)))
        (encoderScaleFactor f)))"

text \<open>
  Modelled from the spec: \<^verbatim>\<open>Factors::rawFromEncoder\<close>, the algebraic inverse of
  \<^verbatim>\<open>rawToEncoder\<close>: the physical value divided by the scale factor, times the
  denominator of the ratio, divided by its numerator. It fails when it would divide by
  zero or when the scale factor is not a finite number.
\<close>

definition rawFromEncoder :: "Factors \<Rightarrow> dbl \<Rightarrow> error + dbl" where
  "rawFromEncoder f p =
     (if encoderRevolutions f = 0 \<or> gearDrivingShaftRevolutions f = 0 \<or> feedLength f = 0
         \<or> encoderScaleFactor f = Finite 0 \<or> isUnknown (encoderScaleFactor f)
      then Inl logic_error
      else Inr (ddiv
        (dmul (ddiv p (encoderScaleFactor f))
           (Finite (of_int (encoderTicks f * gearMotorShaftRevolutions f * feedDrivingShaftRevolutions f))))
        (Finite (of_int (encoderRevolutions f * gearDrivingShaftRevolutions f * feedLength f)))))"

text \<open>
  Modelled from the spec: \<^verbatim>\<open>Factors::rawToCurrent\<close>, raw * ratedCurrent / 1000, failing
  when the rated current is unknown.
\<close>

definition rawToCurrent :: "Factors \<Rightarrow> int \<Rightarrow> error + dbl" where
  "rawToCurrent f x =
     (if isUnknown (ratedCurrent f) then Inl logic_error
      else Inr (ddiv (dmul (Finite (of_int x)) (ratedCurrent f)) (Finite 1000)))"

text \<open>
  Modelled from the spec: \<^verbatim>\<open>Factors::rawToTorque\<close>, raw * ratedTorque / 1000, failing
  with the precondition error when the rated torque is unknown.
\<close>

definition rawToTorque :: "Factors \<Rightarrow> int \<Rightarrow> error + dbl" where
  "rawToTorque f x =
     (if isUnknown (ratedTorque f) then Inl logic_error
      else Inr (ddiv (dmul (Finite (of_int x)) (ratedTorque f)) (Finite 1000)))"

section \<open>Joint state and joint limits\<close>

text \<open>
  \<^verbatim>\<open>base::JointState\<close> and \<^verbatim>\<open>base::JointLimitRange\<close> come from an external library. A
  default-constructed joint state has every field unset, and unset is NaN.
\<close>

record JointState =
  position :: dbl
  speed :: dbl
  effort :: dbl
  raw :: dbl
  acceleration :: dbl

definition unset :: dbl where
  "unset = NaN"

definition JointState_new :: JointState where
  "JointState_new =
     \<lparr> position = unset, speed = unset, effort = unset, raw = unset, acceleration = unset \<rparr>"

record JointLimitRange =
  range_min :: JointState
  range_max :: JointState

datatype MODE = POSITION | SPEED | EFFORT | RAW | ACCELERATION | UNSET





text \<open>\<^verbatim>\<open>int32_t x = getRaw<...>()\<close>: the value as a signed 32-bit integer.\<close>

definition to_int32 :: "int \<Rightarrow> int" where
  "to_int32 v = sint (word_of_int v :: 32 word)"

text \<open>\<^verbatim>\<open>Controller::getJointLimits\<close>, block by block in the order of the source.\<close>

definition positionLimits ::
  "decls \<Rightarrow> Controller \<Rightarrow> JointLimitRange \<Rightarrow> error + JointLimitRange" where
  "positionLimits d c r =
     ebind (getRaw d SoftwarePositionLimitMin c) (\<lambda>v1.
     ebind (getRaw d SoftwarePositionLimitMax c) (\<lambda>v2.
       let rawPositionMin = to_int32 v1; rawPositionMax = to_int32 v2 in
       if rawPositionMin = rawPositionMax \<and> rawPositionMin = 0 then
         Inr (r\<lparr>range_min := (range_min r)\<lparr>position := dneg infinity\<rparr>,
                range_max := (range_max r)\<lparr>position := infinity\<rparr>\<rparr>)
       else
         ebind (rawToEncoder (mFactors c) rawPositionMin) (\<lambda>lo.
         ebind (rawToEncoder (mFactors c) rawPositionMax) (\<lambda>hi.
           Inr (r\<lparr>range_min := (range_min r)\<lparr>position := lo\<rparr>,
                  range_max := (range_max r)\<lparr>position := hi\<rparr>\<rparr>)))))"

definition speedLimits ::
  "decls \<Rightarrow> Controller \<Rightarrow> JointLimitRange \<Rightarrow> error + JointLimitRange" where
  "speedLimits d c r =
     ebind (getRaw d MaxMotorSpeed c) (\<lambda>v.
       let rawMaxSpeed = to_int32 v in
       if rawMaxSpeed < 0 then
         Inr (r\<lparr>range_min := (range_min r)\<lparr>speed := dneg infinity\<rparr>,
                range_max := (range_max r)\<lparr>speed := infinity\<rparr>\<rparr>)
       else
         ebind (rawToEncoder (mFactors c) rawMaxSpeed) (\<lambda>speedLimit.
           Inr (r\<lparr>range_min := (range_min r)\<lparr>speed := dneg speedLimit\<rparr>,
                  range_max := (range_max r)\<lparr>speed := speedLimit\<rparr>\<rparr>)))"

definition accelerationLimits :: "JointLimitRange \<Rightarrow> JointLimitRange" where
  "accelerationLimits r =
     r\<lparr>range_min := (range_min r)\<lparr>acceleration := dneg infinity\<rparr>,
       range_max := (range_max r)\<lparr>acceleration := infinity\<rparr>\<rparr>"

definition torqueAndCurrentLimits ::
  "decls \<Rightarrow> Controller \<Rightarrow> JointLimitRange \<Rightarrow> error + JointLimitRange" where
  "torqueAndCurrentLimits d c r =
     ebind (getRaw d MaxCurrent c) (\<lambda>torqueAndCurrentLimit.
     ebind (rawToTorque (mFactors c) torqueAndCurrentLimit) (\<lambda>torqueLimit.
     ebind (rawToCurrent (mFactors c) torqueAndCurrentLimit) (\<lambda>currentLimit.
       Inr (r\<lparr>range_min := (range_min r)\<lparr>effort := dneg torqueLimit, raw := dneg currentLimit\<rparr>,
              range_max := (range_max r)\<lparr>effort := torqueLimit, raw := currentLimit\<rparr>\<rparr>))))"

definition getJointLimits :: "decls \<Rightarrow> Controller \<Rightarrow> error + JointLimitRange" where
  "getJointLimits d c =
     ebind (positionLimits d c \<lparr>range_min = JointState_new, range_max = JointState_new\<rparr>) (\<lambda>r1.
     ebind (speedLimits d c r1) (\<lambda>r2.
       torqueAndCurrentLimits d c (accelerationLimits r2)))"

section \<open>The control PDO\<close>

text \<open>
  \<^verbatim>\<open>PDOMapping::add<Object>()\<close> appends the object's index, sub-index and size.
  \<^verbatim>\<open>configurePDO\<close> and \<^verbatim>\<open>declareRPDOMapping\<close> belong to the engine: the first gives its
  messages, the second records the mapping under the PDO index.
\<close>

definition PDOMapping_add :: "decls \<Rightarrow> object \<Rightarrow> PDOMapping \<Rightarrow> PDOMapping" where
  "PDOMapping_add d ob m = m @ [(OBJECT_ID d ob, OBJECT_SUB_ID d ob, OBJECT_SIZE d ob)]"

definition controlMapping :: "decls \<Rightarrow> MODE \<Rightarrow> error + PDOMapping" where
  "controlMapping d control_mode =
     (case control_mode of
        POSITION \<Rightarrow> Inr (PDOMapping_add d TargetPosition [])
      | SPEED \<Rightarrow> Inr (PDOMapping_add d TargetVelocity [])
      | EFFORT \<Rightarrow> Inr (PDOMapping_add d TargetTorque [])
      | _ \<Rightarrow> Inl invalid_argument)"

definition declareRPDOMapping :: "int \<Rightarrow> PDOMapping \<Rightarrow> StateMachine \<Rightarrow> StateMachine" where
  "declareRPDOMapping pdoIndex m sm = sm\<lparr>rpdoMappings := (rpdoMappings sm)(pdoIndex \<mapsto> m)\<rparr>"

definition configureControlPDO ::
  "decls \<Rightarrow> int \<Rightarrow> MODE \<Rightarrow> 'p \<Rightarrow> Controller \<Rightarrow> error + ('p pdo_messages \<times> Controller)" where
  "configureControlPDO d pdoIndex control_mode parameters c =
     ebind (controlMapping d control_mode) (\<lambda>mapping.
       Inr (ConfigurePDO False pdoIndex parameters mapping,
            c\<lparr>mCanOpen := declareRPDOMapping pdoIndex mapping (mCanOpen c)\<rparr>))"

section \<open>Sample declarations\<close>

text \<open>
  Concrete values for the declarations that are parameters of the model, used where a
  statement is evaluated at a concrete input: the CiA 402 indices of the objects and one
  bit per update group. The general theorems do not depend on them.
\<close>

fun sample_id :: "object \<Rightarrow> 16 word" where
  "sample_id Heartbeat = 0x1017"
| "sample_id StatusWord = 0x6041"
| "sample_id ModesOfOperation = 0x6060"
| "sample_id PositionEncoderResolutionNum = 0x608F"
| "sample_id PositionEncoderResolutionDen = 0x608F"
| "sample_id VelocityEncoderResolutionNum = 0x6090"
| "sample_id VelocityEncoderResolutionDen = 0x6090"
| "sample_id AccelerationFactorNum = 0x6097"
| "sample_id AccelerationFactorDen = 0x6097"
| "sample_id GearRatioNum = 0x6091"
| "sample_id GearRatioDen = 0x6091"
| "sample_id FeedConstantNum = 0x6092"
| "sample_id FeedConstantDen = 0x6092"
| "sample_id VelocityFactorNum = 0x6096"
| "sample_id VelocityFactorDen = 0x6096"
| "sample_id MotorRatedCurrent = 0x6075"
| "sample_id MotorRatedTorque = 0x6076"
| "sample_id PositionActualInternalValue = 0x6063"
| "sample_id VelocityActualValue = 0x606C"
| "sample_id CurrentActualValue = 0x6078"
| "sample_id SoftwarePositionLimitMin = 0x607D"
| "sample_id SoftwarePositionLimitMax = 0x607D"
| "sample_id MaxMotorSpeed = 0x6080"
| "sample_id MaxAcceleration = 0x60C5"
| "sample_id MaxDeceleration = 0x60C6"
| "sample_id MaxCurrent = 0x6073"
| "sample_id TargetPosition = 0x607A"
| "sample_id TargetVelocity = 0x60FF"
| "sample_id TargetTorque = 0x6071"

definition sample_sub_id :: "object \<Rightarrow> 8 word" where
  "sample_sub_id ob =
     (if ob \<in> {PositionEncoderResolutionNum, VelocityEncoderResolutionNum, AccelerationFactorNum,
                GearRatioNum, FeedConstantNum, VelocityFactorNum, SoftwarePositionLimitMin}
      then 1
      else if ob \<in> {PositionEncoderResolutionDen, VelocityEncoderResolutionDen,
                AccelerationFactorDen, GearRatioDen, FeedConstantDen, VelocityFactorDen,
                SoftwarePositionLimitMax}
      then 2 else 0)"

definition sample_size :: "object \<Rightarrow> nat" where
  "sample_size ob =
     (if ob \<in> {StatusWord, TargetTorque, CurrentActualValue, MaxCurrent, Heartbeat} then 2
      else if ob = ModesOfOperation then 1 else 4)"

definition sample_signed :: "object \<Rightarrow> bool" where
  "sample_signed ob =
     (ob \<in> {ModesOfOperation, PositionActualInternalValue, VelocityActualValue,
             CurrentActualValue, SoftwarePositionLimitMin, SoftwarePositionLimitMax,
             MaxMotorSpeed, TargetPosition, TargetVelocity, TargetTorque})"

definition sample_update_id :: "object \<Rightarrow> 64 word" where
  "sample_update_id ob =
     (if ob = StatusWord then 0x01
      else if ob = ModesOfOperation then 0x02
      else if ob = PositionActualInternalValue then 0x08
      else if ob = VelocityActualValue then 0x10
      else if ob = CurrentActualValue then 0x20
      else if ob \<in> {SoftwarePositionLimitMin, SoftwarePositionLimitMax, MaxMotorSpeed,
                     MaxAcceleration, MaxDeceleration, MaxCurrent} then 0x40
      else if ob = Heartbeat then 0x80
      else if ob \<in> {TargetPosition, TargetVelocity, TargetTorque} then 0
      else 0x04)"

definition sample_decls :: decls where
  "sample_decls =
     \<lparr> OBJECT_ID = sample_id, OBJECT_SUB_ID = sample_sub_id, OBJECT_SIZE = sample_size,
       OBJECT_SIGNED = sample_signed,
       UPDATE_ID = sample_update_id, UPDATE_FACTORS = 0x04, UPDATE_JOINT_POSITION = 0x08,
       UPDATE_JOINT_VELOCITY = 0x10, UPDATE_JOINT_CURRENT = 0x20 \<rparr>"


section \<open>Reading the factor objects\<close>

text \<open>The eight objects \<^verbatim>\<open>computeFactors\<close> reads, in the order it reads them.\<close>

definition factor_objects :: "object list" where
  "factor_objects =
     [PositionEncoderResolutionNum, PositionEncoderResolutionDen, GearRatioNum, GearRatioDen,
      FeedConstantNum, FeedConstantDen, MotorRatedTorque, MotorRatedCurrent]"

text \<open>Every factor object has a value in the engine's dictionary.\<close>

definition factorsReadable :: "decls \<Rightarrow> StateMachine \<Rightarrow> bool" where
  "factorsReadable d sm = list_all (\<lambda>ob. objects sm (key d ob) \<noteq> None) factor_objects"



text \<open>
  The product \<^verbatim>\<open>current_mA * torqueConstant\<close> is in the range of the type of
  \<^verbatim>\<open>MotorRatedTorque\<close>, and the rated current and the product stay below 2^53 in
  magnitude, where every integer is a double and the rounded product is less than one
  away from the exact one.
\<close>

definition torqueProductFits :: "decls \<Rightarrow> int \<Rightarrow> real \<Rightarrow> bool" where
  "torqueProductFits d current_mA k =
     (current_mA < 2 ^ 53 \<and> \<bar>of_int current_mA * k\<bar> < 2 ^ 53
      \<and> of_int (object_min d MotorRatedTorque) \<le> of_int current_mA * k
      \<and> of_int current_mA * k \<le> of_int (object_max d MotorRatedTorque))"

section \<open>Sample states and engine replies\<close>

text \<open>
  Motor parameters with 4096 encoder ticks per revolution, a gear of 100:1, no feed
  override and a torque constant of 2.
\<close>

definition sample_parameters :: MotorParameters where
  "sample_parameters =
     \<lparr> MotorParameters.encoderTicks = 4096, MotorParameters.encoderRevolutions = 1,
       MotorParameters.gearMotorShaftRevolutions = 100,
       MotorParameters.gearDrivingShaftRevolutions = 1,
       MotorParameters.feedLength = 0, MotorParameters.feedDrivingShaftRevolutions = 0,
       torqueConstant = Finite 2 \<rparr>"

text \<open>
  A controller as \<^verbatim>\<open>Main.cpp\<close> could have it: constructed, given the sample parameters,
  then given an encoder scale factor of 2.
\<close>

definition sample_controller :: Controller where
  "sample_controller =
     (case setMotorParameters sample_decls sample_parameters (Controller_new sample_decls 1) of
        Inr c \<Rightarrow> setEncoderScaleFactor (Finite 2) c
      | Inl _ \<Rightarrow> Controller_new sample_decls 1)"

text \<open>
  Two replies of the engine: an upload of the gear ratio numerator with the value 7, and
  the acknowledgment of a write to the torque target.
\<close>

definition sample_refresh :: "unit \<Rightarrow> StateMachine \<Rightarrow> sm_update \<times> StateMachine" where
  "sample_refresh m sm =
     (\<lparr> mode = PROCESSED_OTHER, updated = [(0x6091, 1)] \<rparr>, sm_set (0x6091, 1) 7 sm)"

definition sample_ack :: "unit \<Rightarrow> StateMachine \<Rightarrow> sm_update \<times> StateMachine" where
  "sample_ack m sm =
     (\<lparr> mode = PROCESSED_SDO_INITIATE_DOWNLOAD, updated = [(0x6071, 0)] \<rparr>, sm)"



definition sample_limits_controller :: Controller where
  "sample_limits_controller =
     setRaw sample_decls MaxCurrent 1500
     (setRaw sample_decls MaxMotorSpeed (- 1)
     (setRaw sample_decls SoftwarePositionLimitMax 0
     (setRaw sample_decls SoftwarePositionLimitMin 0 sample_controller)))"

definition sample_bounded_controller :: Controller where
  "sample_bounded_controller =
     setRaw sample_decls MaxCurrent 1500
     (setRaw sample_decls MaxMotorSpeed 2048
     (setRaw sample_decls SoftwarePositionLimitMax 4096
     (setRaw sample_decls SoftwarePositionLimitMin (- 4096) sample_controller)))"

section \<open>Properties of the torque command\<close>

lemma mFactors_setRaw: "mFactors (setRaw d ob v c) = mFactors c"
  by (simp add: setRaw_def)

lemma mFactors_Controller_new: "mFactors (Controller_new d n) = Factors_default"
  by (simp add: Controller_new_def mFactors_setRaw)

lemma sample_keys:
  "key sample_decls MotorRatedCurrent = (0x6075, 0)"
  "key sample_decls MotorRatedTorque = (0x6076, 0)"
  "key sample_decls PositionEncoderResolutionNum = (0x608F, 1)"
  "key sample_decls PositionEncoderResolutionDen = (0x608F, 2)"
  "key sample_decls GearRatioNum = (0x6091, 1)"
  "key sample_decls GearRatioDen = (0x6091, 2)"
  "key sample_decls FeedConstantNum = (0x6092, 1)"
  "key sample_decls FeedConstantDen = (0x6092, 2)"
  by (simp_all add: key_def sample_decls_def sample_sub_id_def)

lemma sample_torque_type:
  "to_object_type sample_decls MotorRatedTorque v = v mod 4294967296"
  "object_min sample_decls MotorRatedTorque = 0"
  "object_max sample_decls MotorRatedTorque = 4294967295"
  by (simp_all add: to_object_type_def object_min_def object_max_def sample_decls_def
      sample_signed_def sample_size_def)

text \<open>
  With an unsigned 32-bit rated torque object, products outside its range are stored
  reduced: a rated current of 1 with the torque constants 5e9 and -2.
\<close>

lemma sample_torque_out_of_range:
  "double_to_raw sample_decls MotorRatedTorque (dmul (Finite 1) (Finite 5000000000))
     = Some 705032704"
  "double_to_raw sample_decls MotorRatedTorque (dmul (Finite 1) (Finite (- 2)))
     = Some 4294967294"
  by (simp_all add: double_to_raw_def sample_torque_type trunc_def)

text \<open>
  The range test of \<^verbatim>\<open>setTorqueTarget\<close>, for a finite non-zero rated torque: the error is
  raised below -32767 and above 32768.
\<close>

lemma setTorqueTarget_out_of_range_iff:
  assumes "ratedTorque (mFactors c) = Finite rt" and "rt \<noteq> 0"
  shows "setTorqueTarget d (Finite t) c = Inl out_of_range
     \<longleftrightarrow> (t / rt * 1000 < - 32767 \<or> 32768 < t / rt * 1000)"
  using assms by (simp add: setTorqueTarget_def isUnknown_def Let_def split: option.splits)

text \<open>\<^verbatim>\<open>setRatedTorque\<close> changes nothing that \<^verbatim>\<open>setTorqueTarget\<close> reads.\<close>

lemma setTorqueTarget_ignores_setRatedTorque:
  "setTorqueTarget d t (setRatedTorque rt c) = setTorqueTarget d t c"
  by (simp add: setTorqueTarget_def setRatedTorque_def)

text \<open>
  C1. The claim: after \<^verbatim>\<open>setRatedTorque(1.0)\<close> on a controller that has read no factor
  object and has no motor parameters, \<^verbatim>\<open>setTorqueTarget(t)\<close> succeeds for every target in
  range. The code: \<^verbatim>\<open>setRatedTorque\<close> writes the member \<^verbatim>\<open>mRatedTorque\<close>, and
  \<^verbatim>\<open>setTorqueTarget\<close> tests the rated torque of the cached factors, which is still
  unknown. Every target is refused with \<^verbatim>\<open>std::logic_error\<close>.
\<close>

theorem setTorqueTarget_after_setRatedTorque:
  "setTorqueTarget d t (setRatedTorque (Finite 1) (Controller_new d n)) = Inl logic_error"
  by (simp add: setTorqueTarget_def setRatedTorque_def mFactors_Controller_new
      Factors_default_def isUnknown_def unknown_def)

text \<open>
  C2. The claim: the out-of-range error is raised exactly when target / ratedTorque * 1000
  lies outside [-32768, 32767]. The code tests against -32767 and 32768. With a rated
  torque of 1 (the rated current of 1 mA times a torque constant of 1000), the target
  -32.768 scales to -32768, which is an \<^verbatim>\<open>int16_t\<close>, and is refused; the target 32.768
  scales to 32768, which is not, and passes the test, reaching a conversion that C++
  leaves undefined.
\<close>

theorem setTorqueTarget_bounds_off_by_one:
  "\<exists>c. setMotorParameters sample_decls (MotorParameters_default\<lparr>torqueConstant := Finite 1000\<rparr>)
          (Controller_new sample_decls 1) = Inr c
     \<and> ratedTorque (mFactors c) = Finite 1
     \<and> setTorqueTarget sample_decls (Finite (- 32.768)) c = Inl out_of_range
     \<and> static_cast_int16 (dmul (ddiv (Finite (- 32.768)) (Finite 1)) (Finite 1000)) = Some (- 32768)
     \<and> setTorqueTarget sample_decls (Finite 32.768) c = Inl undefined_behaviour"
  by (simp add: setMotorParameters_def applyTorqueConstant_def applyRatios_def setRawIf_def
      MotorParameters_default_def isUnknown_def unknown_def Controller_new_def setRaw_def sm_set_def
      getRaw_def sm_get_def ebind_def to_uint64_def double_to_raw_def sample_torque_type
      trunc_def recomputeFactors_def
      computeFactors_def Factors_update_def Factors_default_def sample_keys
      setTorqueTarget_def static_cast_int16_def)

text \<open>
  C5. For every target, when the rated torque of the cached factors is unknown,
  \<^verbatim>\<open>setTorqueTarget\<close> raises \<^verbatim>\<open>std::logic_error\<close> (the precondition error) and builds no
  message.
\<close>

theorem setTorqueTarget_unknown_rated_torque:
  "isUnknown (ratedTorque (mFactors c)) \<Longrightarrow> setTorqueTarget d target c = Inl logic_error"
  by (simp add: setTorqueTarget_def)

theorem setTorqueTarget_unknown_rated_torque_witness:
  "isUnknown (ratedTorque (mFactors (Controller_new sample_decls 1)))
   \<and> setTorqueTarget sample_decls (Finite 0) (Controller_new sample_decls 1) = Inl logic_error"
proof -
  have h: "isUnknown (ratedTorque (mFactors (Controller_new sample_decls 1)))"
    by (simp add: mFactors_Controller_new Factors_default_def isUnknown_def unknown_def)
  from h setTorqueTarget_unknown_rated_torque [OF h, of sample_decls "Finite 0"]
  show ?thesis by simp
qed


section \<open>Properties of message processing\<close>

lemma getRaw_setRaw:
  "getRaw d ob (setRaw d ob' v c) = (if key d ob = key d ob' then Inr v else getRaw d ob c)"
  by (simp add: getRaw_def setRaw_def sm_get_def sm_set_def)

lemma getRaw_setRawIf:
  "getRaw d ob (setRawIf d ob' v c) =
     (if v \<noteq> 0 \<and> key d ob = key d ob' then Inr v else getRaw d ob c)"
  by (simp add: setRawIf_def getRaw_setRaw)

lemma factorsReadable_setRaw:
  "factorsReadable d (mCanOpen c) \<Longrightarrow> factorsReadable d (mCanOpen (setRaw d ob v c))"
  by (simp add: factorsReadable_def factor_objects_def setRaw_def sm_set_def)

lemma factorsReadable_setRawIf:
  "factorsReadable d (mCanOpen c) \<Longrightarrow> factorsReadable d (mCanOpen (setRawIf d ob v c))"
  by (simp add: setRawIf_def factorsReadable_setRaw)

lemma factorsReadable_applyRatios:
  "factorsReadable d (mCanOpen c) \<Longrightarrow> factorsReadable d (mCanOpen (applyRatios d p c))"
  by (simp add: applyRatios_def factorsReadable_setRawIf)

lemma factorsReadable_getRaw:
  assumes "factorsReadable d (mCanOpen c)" and "ob \<in> set factor_objects"
  shows "\<exists>v. getRaw d ob c = Inr v"
  using assms by (auto simp add: factorsReadable_def list_all_iff getRaw_def sm_get_def)

lemma ebind_Inr [simp]: "ebind (Inr x) f = f x"
  by (simp add: ebind_def)

lemma ebind_Inl [simp]: "ebind (Inl e) f = Inl e"
  by (simp add: ebind_def)

lemma computeFactors_readable:
  assumes "factorsReadable d (mCanOpen c)"
  shows "\<exists>f. computeFactors d c = Inr f \<and> encoderScaleFactor f = Finite 1"
proof -
  have mem: "ob \<in> set factor_objects \<Longrightarrow> \<exists>v. getRaw d ob c = Inr v" for ob
    using assms by (rule factorsReadable_getRaw)
  obtain v1 v2 v3 v4 v5 v6 v7 v8 where
    "getRaw d PositionEncoderResolutionNum c = Inr v1"
    "getRaw d PositionEncoderResolutionDen c = Inr v2"
    "getRaw d GearRatioNum c = Inr v3"
    "getRaw d GearRatioDen c = Inr v4"
    "getRaw d FeedConstantNum c = Inr v5"
    "getRaw d FeedConstantDen c = Inr v6"
    "getRaw d MotorRatedTorque c = Inr v7"
    "getRaw d MotorRatedCurrent c = Inr v8"
    using mem [of PositionEncoderResolutionNum] mem [of PositionEncoderResolutionDen]
      mem [of GearRatioNum] mem [of GearRatioDen] mem [of FeedConstantNum]
      mem [of FeedConstantDen] mem [of MotorRatedTorque] mem [of MotorRatedCurrent]
    by (auto simp add: factor_objects_def)
  then show ?thesis
    by (simp add: computeFactors_def Factors_update_def Factors_default_def)
qed

lemma applyTorqueConstant_readable:
  assumes "factorsReadable d (mCanOpen c)" and "torqueConstant p \<notin> {PosInf, NegInf}"
  shows "\<exists>c'. applyTorqueConstant d p c = Inr c' \<and> factorsReadable d (mCanOpen c')"
proof (cases "torqueConstant p")
  case (Finite k)
  obtain v where "getRaw d MotorRatedCurrent c = Inr v"
    using factorsReadable_getRaw [OF assms(1), of MotorRatedCurrent]
    by (auto simp add: factor_objects_def)
  then show ?thesis
    using assms(1) Finite
    by (simp add: applyTorqueConstant_def isUnknown_def double_to_raw_def Let_def
        factorsReadable_setRaw)
next
  case NaN
  then show ?thesis using assms(1) by (simp add: applyTorqueConstant_def isUnknown_def)
qed (use assms(2) in simp_all)

lemma setMotorParameters_resets_scale:
  assumes "factorsReadable d (mCanOpen c)" and "torqueConstant p \<notin> {PosInf, NegInf}"
  shows "\<exists>c'. setMotorParameters d p c = Inr c' \<and> encoderScaleFactor (mFactors c') = Finite 1"
proof -
  have "factorsReadable d (mCanOpen (applyRatios d p (c\<lparr>mMotorParameters := p\<rparr>)))"
    using assms(1) by (simp add: factorsReadable_applyRatios)
  then obtain c2 where c2: "applyTorqueConstant d p (applyRatios d p (c\<lparr>mMotorParameters := p\<rparr>)) = Inr c2"
    and r2: "factorsReadable d (mCanOpen c2)"
    using applyTorqueConstant_readable [OF _ assms(2)] by blast
  obtain f where "computeFactors d c2 = Inr f" "encoderScaleFactor f = Finite 1"
    using computeFactors_readable [OF r2] by blast
  then show ?thesis
    by (simp add: setMotorParameters_def c2 recomputeFactors_def)
qed

lemma applyTorqueConstant_cases:
  assumes "getRaw d MotorRatedCurrent c = Inr v" and "torqueConstant p \<notin> {PosInf, NegInf}"
  shows "applyTorqueConstant d p c =
     Inr (case torqueConstant p of
            Finite k \<Rightarrow>
              setRaw d MotorRatedTorque
                (to_object_type d MotorRatedTorque (trunc (of_int (to_uint64 v) * k))) c
          | _ \<Rightarrow> c)"
  using assms
  by (cases "torqueConstant p")
    (simp_all add: applyTorqueConstant_def isUnknown_def double_to_raw_def Let_def)

lemma mMotorParameters_setRaw: "mMotorParameters (setRaw d ob v c) = mMotorParameters c"
  by (simp add: setRaw_def)

lemma mMotorParameters_applyRatios: "mMotorParameters (applyRatios d p c) = mMotorParameters c"
  by (simp add: applyRatios_def setRawIf_def mMotorParameters_setRaw)

lemma getRaw_mMotorParameters_update: "getRaw d ob (c\<lparr>mMotorParameters := p\<rparr>) = getRaw d ob c"
  by (simp add: getRaw_def)

lemma computeFactors_mFactors_update: "computeFactors d (c\<lparr>mFactors := f\<rparr>) = computeFactors d c"
  by (simp add: computeFactors_def getRaw_def)

lemma distinct_factor_keys:
  assumes "distinct (map (key d) factor_objects)"
  shows "key d PositionEncoderResolutionNum \<noteq> key d PositionEncoderResolutionDen"
    "key d PositionEncoderResolutionNum \<noteq> key d GearRatioNum"
    "key d PositionEncoderResolutionNum \<noteq> key d GearRatioDen"
    "key d PositionEncoderResolutionNum \<noteq> key d FeedConstantNum"
    "key d PositionEncoderResolutionNum \<noteq> key d FeedConstantDen"
    "key d PositionEncoderResolutionNum \<noteq> key d MotorRatedTorque"
    "key d PositionEncoderResolutionNum \<noteq> key d MotorRatedCurrent"
    "key d PositionEncoderResolutionDen \<noteq> key d GearRatioNum"
    "key d PositionEncoderResolutionDen \<noteq> key d GearRatioDen"
    "key d PositionEncoderResolutionDen \<noteq> key d FeedConstantNum"
    "key d PositionEncoderResolutionDen \<noteq> key d FeedConstantDen"
    "key d PositionEncoderResolutionDen \<noteq> key d MotorRatedTorque"
    "key d PositionEncoderResolutionDen \<noteq> key d MotorRatedCurrent"
    "key d GearRatioNum \<noteq> key d GearRatioDen"
    "key d GearRatioNum \<noteq> key d FeedConstantNum"
    "key d GearRatioNum \<noteq> key d FeedConstantDen"
    "key d GearRatioNum \<noteq> key d MotorRatedTorque"
    "key d GearRatioNum \<noteq> key d MotorRatedCurrent"
    "key d GearRatioDen \<noteq> key d FeedConstantNum"
    "key d GearRatioDen \<noteq> key d FeedConstantDen"
    "key d GearRatioDen \<noteq> key d MotorRatedTorque"
    "key d GearRatioDen \<noteq> key d MotorRatedCurrent"
    "key d FeedConstantNum \<noteq> key d FeedConstantDen"
    "key d FeedConstantNum \<noteq> key d MotorRatedTorque"
    "key d FeedConstantNum \<noteq> key d MotorRatedCurrent"
    "key d FeedConstantDen \<noteq> key d MotorRatedTorque"
    "key d FeedConstantDen \<noteq> key d MotorRatedCurrent"
    "key d MotorRatedTorque \<noteq> key d MotorRatedCurrent"
  using assms by (simp_all add: factor_objects_def)

lemma to_object_type_in_range:
  assumes "object_min d ob \<le> v" and "v \<le> object_max d ob"
  shows "to_object_type d ob v = v"
proof (cases "OBJECT_SIGNED d ob")
  case True
  define h :: int where "h = 2 ^ (8 * OBJECT_SIZE d ob) div 2"
  have "2 * h \<le> 2 ^ (8 * OBJECT_SIZE d ob)"
    unfolding h_def by simp
  moreover have "- h \<le> v" "v \<le> h - 1"
    using assms True by (simp_all add: object_min_def object_max_def h_def)
  ultimately have "0 \<le> v + h" "v + h < 2 ^ (8 * OBJECT_SIZE d ob)"
    by linarith+
  then have "(v + h) mod 2 ^ (8 * OBJECT_SIZE d ob) = v + h"
    by simp
  then show ?thesis
    using True by (simp add: to_object_type_def h_def)
next
  case False
  then have "0 \<le> v" "v < 2 ^ (8 * OBJECT_SIZE d ob)"
    using assms by (simp_all add: object_min_def object_max_def)
  then show ?thesis
    using False by (simp add: to_object_type_def)
qed

lemma trunc_bounds:
  assumes "of_int lo \<le> r" and "r \<le> of_int hi"
  shows "lo \<le> trunc r" and "trunc r \<le> hi"
  using assms by (auto simp add: trunc_def le_floor_iff ceiling_le_iff) linarith+

lemma trunc_close: "\<bar>of_int (trunc r) - r\<bar> < 1"
  by (simp add: trunc_def) linarith

lemma trunc_of_Ints: "r \<in> \<int> \<Longrightarrow> of_int (trunc r) = r"
  by (auto simp add: trunc_def elim: Ints_cases)

lemma torqueProductFits_stored:
  assumes "torqueProductFits d cur k"
  shows "to_object_type d MotorRatedTorque (trunc (of_int cur * k)) = trunc (of_int cur * k)"
proof (rule to_object_type_in_range)
  have lo: "of_int (object_min d MotorRatedTorque) \<le> of_int cur * k"
    and hi: "of_int cur * k \<le> of_int (object_max d MotorRatedTorque)"
    using assms by (simp_all add: torqueProductFits_def)
  show "object_min d MotorRatedTorque \<le> trunc (of_int cur * k)"
    using lo hi by (rule trunc_bounds)
  show "trunc (of_int cur * k) \<le> object_max d MotorRatedTorque"
    using lo hi by (rule trunc_bounds)
qed

lemma setMotorParameters_overrides:
  assumes rd: "factorsReadable d (mCanOpen c)"
    and dist: "distinct (map (key d) factor_objects)"
    and tc: "torqueConstant p \<notin> {PosInf, NegInf}"
    and cur: "getRaw d MotorRatedCurrent c = Inr v"
  shows "\<exists>c'. setMotorParameters d p c = Inr c'
     \<and> mMotorParameters c' = p
     \<and> computeFactors d c' = Inr (mFactors c')
     \<and> (MotorParameters.encoderTicks p \<noteq> 0 \<longrightarrow>
          getRaw d PositionEncoderResolutionNum c' = Inr (MotorParameters.encoderTicks p)
          \<and> Factors.encoderTicks (mFactors c') = MotorParameters.encoderTicks p)
     \<and> (MotorParameters.encoderRevolutions p \<noteq> 0 \<longrightarrow>
          getRaw d PositionEncoderResolutionDen c' = Inr (MotorParameters.encoderRevolutions p)
          \<and> Factors.encoderRevolutions (mFactors c') = MotorParameters.encoderRevolutions p)
     \<and> (MotorParameters.gearMotorShaftRevolutions p \<noteq> 0 \<longrightarrow>
          getRaw d GearRatioNum c' = Inr (MotorParameters.gearMotorShaftRevolutions p)
          \<and> Factors.gearMotorShaftRevolutions (mFactors c') = MotorParameters.gearMotorShaftRevolutions p)
     \<and> (MotorParameters.gearDrivingShaftRevolutions p \<noteq> 0 \<longrightarrow>
          getRaw d GearRatioDen c' = Inr (MotorParameters.gearDrivingShaftRevolutions p)
          \<and> Factors.gearDrivingShaftRevolutions (mFactors c') = MotorParameters.gearDrivingShaftRevolutions p)
     \<and> (MotorParameters.feedLength p \<noteq> 0 \<longrightarrow>
          getRaw d FeedConstantNum c' = Inr (MotorParameters.feedLength p)
          \<and> Factors.feedLength (mFactors c') = MotorParameters.feedLength p)
     \<and> (MotorParameters.feedDrivingShaftRevolutions p \<noteq> 0 \<longrightarrow>
          getRaw d FeedConstantDen c' = Inr (MotorParameters.feedDrivingShaftRevolutions p)
          \<and> Factors.feedDrivingShaftRevolutions (mFactors c') = MotorParameters.feedDrivingShaftRevolutions p)
     \<and> (\<forall>k. torqueConstant p = Finite k \<and> torqueProductFits d (to_uint64 v) k \<longrightarrow>
          (\<exists>t. getRaw d MotorRatedTorque c' = Inr t
             \<and> ratedTorque (mFactors c') = Finite (of_int t / 1000)
             \<and> \<bar>of_int t - of_int (to_uint64 v) * k\<bar> < 1
             \<and> (of_int (to_uint64 v) * k \<in> \<int> \<longrightarrow> of_int t = of_int (to_uint64 v) * k)))"
proof -
  note ne = distinct_factor_keys [OF dist] distinct_factor_keys [OF dist, symmetric]
  have mem: "ob \<in> set factor_objects \<Longrightarrow> \<exists>w. getRaw d ob c = Inr w" for ob
    using rd by (rule factorsReadable_getRaw)
  obtain w1 w2 w3 w4 w5 w6 w7 where w:
    "getRaw d PositionEncoderResolutionNum c = Inr w1"
    "getRaw d PositionEncoderResolutionDen c = Inr w2"
    "getRaw d GearRatioNum c = Inr w3"
    "getRaw d GearRatioDen c = Inr w4"
    "getRaw d FeedConstantNum c = Inr w5"
    "getRaw d FeedConstantDen c = Inr w6"
    "getRaw d MotorRatedTorque c = Inr w7"
    using mem [of PositionEncoderResolutionNum] mem [of PositionEncoderResolutionDen]
      mem [of GearRatioNum] mem [of GearRatioDen] mem [of FeedConstantNum]
      mem [of FeedConstantDen] mem [of MotorRatedTorque]
    by (auto simp add: factor_objects_def)
  define c1 where "c1 = applyRatios d p (c\<lparr>mMotorParameters := p\<rparr>)"
  have r1: "getRaw d PositionEncoderResolutionNum c1 =
        Inr (if MotorParameters.encoderTicks p \<noteq> 0 then MotorParameters.encoderTicks p else w1)"
      "getRaw d PositionEncoderResolutionDen c1 =
        Inr (if MotorParameters.encoderRevolutions p \<noteq> 0 then MotorParameters.encoderRevolutions p else w2)"
      "getRaw d GearRatioNum c1 =
        Inr (if MotorParameters.gearMotorShaftRevolutions p \<noteq> 0
             then MotorParameters.gearMotorShaftRevolutions p else w3)"
      "getRaw d GearRatioDen c1 =
        Inr (if MotorParameters.gearDrivingShaftRevolutions p \<noteq> 0
             then MotorParameters.gearDrivingShaftRevolutions p else w4)"
      "getRaw d FeedConstantNum c1 =
        Inr (if MotorParameters.feedLength p \<noteq> 0 then MotorParameters.feedLength p else w5)"
      "getRaw d FeedConstantDen c1 =
        Inr (if MotorParameters.feedDrivingShaftRevolutions p \<noteq> 0
             then MotorParameters.feedDrivingShaftRevolutions p else w6)"
      "getRaw d MotorRatedTorque c1 = Inr w7"
      "getRaw d MotorRatedCurrent c1 = Inr v"
    by (simp_all add: c1_def applyRatios_def getRaw_setRawIf ne getRaw_mMotorParameters_update w cur)
  have p1: "mMotorParameters c1 = p"
    by (simp add: c1_def mMotorParameters_applyRatios)
  define stored where
    "stored k = to_object_type d MotorRatedTorque (trunc (of_int (to_uint64 v) * k))" for k
  define c2 where "c2 = (case torqueConstant p of
        Finite k \<Rightarrow> setRaw d MotorRatedTorque (stored k) c1 | _ \<Rightarrow> c1)"
  have a2: "applyTorqueConstant d p c1 = Inr c2"
    unfolding c2_def stored_def using r1(8) tc by (rule applyTorqueConstant_cases)
  have p2: "mMotorParameters c2 = p"
    by (simp add: c2_def p1 mMotorParameters_setRaw split: dbl.split)
  have r2: "getRaw d PositionEncoderResolutionNum c2 = getRaw d PositionEncoderResolutionNum c1"
      "getRaw d PositionEncoderResolutionDen c2 = getRaw d PositionEncoderResolutionDen c1"
      "getRaw d GearRatioNum c2 = getRaw d GearRatioNum c1"
      "getRaw d GearRatioDen c2 = getRaw d GearRatioDen c1"
      "getRaw d FeedConstantNum c2 = getRaw d FeedConstantNum c1"
      "getRaw d FeedConstantDen c2 = getRaw d FeedConstantDen c1"
      "getRaw d MotorRatedCurrent c2 = getRaw d MotorRatedCurrent c1"
    by (simp_all add: c2_def getRaw_setRaw ne split: dbl.split)
  have t2: "getRaw d MotorRatedTorque c2 =
      Inr (case torqueConstant p of Finite k \<Rightarrow> stored k | _ \<Rightarrow> w7)"
    by (simp add: c2_def getRaw_setRaw r1 split: dbl.split)
  obtain f where f: "computeFactors d c2 = Inr f"
    and f1: "Factors.encoderTicks f =
        (if MotorParameters.encoderTicks p \<noteq> 0 then MotorParameters.encoderTicks p else w1)"
    and f2: "Factors.encoderRevolutions f =
        (if MotorParameters.encoderRevolutions p \<noteq> 0 then MotorParameters.encoderRevolutions p else w2)"
    and f3: "Factors.gearMotorShaftRevolutions f =
        (if MotorParameters.gearMotorShaftRevolutions p \<noteq> 0
         then MotorParameters.gearMotorShaftRevolutions p else w3)"
    and f4: "Factors.gearDrivingShaftRevolutions f =
        (if MotorParameters.gearDrivingShaftRevolutions p \<noteq> 0
         then MotorParameters.gearDrivingShaftRevolutions p else w4)"
    and f5: "Factors.feedLength f =
        (if MotorParameters.feedLength p \<noteq> 0 then MotorParameters.feedLength p else w5)"
    and f6: "Factors.feedDrivingShaftRevolutions f =
        (if MotorParameters.feedDrivingShaftRevolutions p \<noteq> 0
         then MotorParameters.feedDrivingShaftRevolutions p else w6)"
    and f7: "ratedTorque f = Finite (of_int
        (case torqueConstant p of Finite k \<Rightarrow> stored k | _ \<Rightarrow> w7) / 1000)"
    by (simp add: computeFactors_def r2 r1 t2 Factors_update_def)
  have s: "setMotorParameters d p c = Inr (c2\<lparr>mFactors := f\<rparr>)"
    by (simp add: setMotorParameters_def a2 [unfolded c1_def] recomputeFactors_def f)
  have g: "getRaw d ob (c2\<lparr>mFactors := f\<rparr>) = getRaw d ob c2" for ob
    by (simp add: getRaw_def)
  have tq: "\<exists>t. getRaw d MotorRatedTorque c2 = Inr t
        \<and> ratedTorque f = Finite (of_int t / 1000)
        \<and> \<bar>of_int t - of_int (to_uint64 v) * k\<bar> < 1
        \<and> (of_int (to_uint64 v) * k \<in> \<int> \<longrightarrow> of_int t = of_int (to_uint64 v) * k)"
    if "torqueConstant p = Finite k" and "torqueProductFits d (to_uint64 v) k" for k
  proof -
    have "stored k = trunc (of_int (to_uint64 v) * k)"
      unfolding stored_def using that(2) by (rule torqueProductFits_stored)
    then show ?thesis
      using that(1) by (simp add: t2 f7 trunc_close trunc_of_Ints)
  qed
  show ?thesis
    using tq
    by (simp add: s p2 computeFactors_mFactors_update f g r2 r1 f1 f2 f3 f4 f5 f6)
qed


text \<open>\<^verbatim>\<open>fullId\<close> identifies an object: index and sub-index can be read back from it.\<close>

lemma fullId_inj: "fullId k = fullId k' \<longleftrightarrow> k = k'"
proof
  assume eq: "fullId k = fullId k'"
  obtain a b where k: "k = (a, b)" by (cases k)
  obtain a' b' where k': "k' = (a', b')" by (cases k')
  have bits: "bit (fullId (x, y)) n \<longleftrightarrow> (8 \<le> n \<and> n < 24 \<and> bit x (n - 8)) \<or> (n < 8 \<and> bit y n)" for x y n
    by (auto simp add: fullId_def bit_simps dest: bit_imp_le_length)
  have "a = a'"
  proof (rule bit_eqI)
    fix n
    have "bit (fullId (a, b)) (n + 8) = bit (fullId (a', b')) (n + 8)" using eq k k' by simp
    then show "bit a n \<longleftrightarrow> bit a' n" 
      by (auto simp add: bits dest: bit_imp_le_length)
  qed
  moreover have "b = b'"
  proof (rule bit_eqI)
    fix n
    have "bit (fullId (a, b)) n = bit (fullId (a', b')) n" using eq k k' by simp
    then show "bit b n \<longleftrightarrow> bit b' n" 
      by (auto simp add: bits dest: bit_imp_le_length)
  qed
  ultimately show "k = k'" by (simp add: k k')
qed simp

lemma sample_all_keys:
  "key sample_decls StatusWord = (0x6041, 0)"
  "key sample_decls ModesOfOperation = (0x6060, 0)"
  "key sample_decls VelocityEncoderResolutionNum = (0x6090, 1)"
  "key sample_decls VelocityEncoderResolutionDen = (0x6090, 2)"
  "key sample_decls AccelerationFactorNum = (0x6097, 1)"
  "key sample_decls AccelerationFactorDen = (0x6097, 2)"
  "key sample_decls VelocityFactorNum = (0x6096, 1)"
  "key sample_decls VelocityFactorDen = (0x6096, 2)"
  "key sample_decls PositionActualInternalValue = (0x6063, 0)"
  "key sample_decls VelocityActualValue = (0x606C, 0)"
  "key sample_decls CurrentActualValue = (0x6078, 0)"
  "key sample_decls SoftwarePositionLimitMin = (0x607D, 1)"
  "key sample_decls SoftwarePositionLimitMax = (0x607D, 2)"
  "key sample_decls MaxMotorSpeed = (0x6080, 0)"
  "key sample_decls MaxAcceleration = (0x60C5, 0)"
  "key sample_decls MaxDeceleration = (0x60C6, 0)"
  "key sample_decls MaxCurrent = (0x6073, 0)"
  "key sample_decls TargetPosition = (0x607A, 0)"
  "key sample_decls TargetVelocity = (0x60FF, 0)"
  "key sample_decls TargetTorque = (0x6071, 0)"
  by (simp_all add: key_def sample_decls_def sample_sub_id_def)

lemma classify_sample_refresh:
  "classify sample_decls \<lparr> mode = PROCESSED_OTHER, updated = [(0x6091, 1)] \<rparr> = 4"
  by (simp add: classify_def mode_update_def sdo_update_def sdo_cases_def fullId_inj
      sample_keys sample_all_keys)
    (simp add: sample_decls_def sample_update_id_def)

lemma sample_controller_facts:
  "mMotorParameters sample_controller = sample_parameters"
  "encoderScaleFactor (mFactors sample_controller) = Finite 2"
  "factorsReadable sample_decls (mCanOpen sample_controller)"
  "getRaw sample_decls MotorRatedCurrent sample_controller = Inr 1"
  by (simp_all add: sample_controller_def sample_parameters_def setMotorParameters_def
      applyTorqueConstant_def applyRatios_def setRawIf_def
      isUnknown_def unknown_def Controller_new_def setRaw_def sm_set_def
      getRaw_def sm_get_def ebind_def to_uint64_def double_to_raw_def sample_torque_type
      trunc_def recomputeFactors_def
      computeFactors_def Factors_update_def Factors_default_def sample_keys
      setEncoderScaleFactor_def factorsReadable_def factor_objects_def)


text \<open>
  C3. When the engine's update is not an acknowledgment and its classification has a bit
  of the FACTORS group, \<^verbatim>\<open>process\<close> calls \<^verbatim>\<open>setMotorParameters\<close> with the stored
  parameters: on return the parameters are the stored ones, every non-zero ratio term is
  in its raw object and in the cached factors, and the cached factors are the ones
  computed from the raw objects. A known torque constant whose product with the rated
  current fits the type of the rated torque object gives that object a value less than
  one away from the product (the product itself when it is an integer), and the rated
  torque is that value over 1000. The factor objects are readable (the constructor writes
  all eight) and have distinct identities; an infinite torque constant is left out, since
  its conversion to an integer is undefined.
\<close>

theorem process_reapplies_motor_parameters:
  assumes eng: "eng msg (mCanOpen c) = (cu, sm)"
    and md: "mode cu \<noteq> PROCESSED_SDO_INITIATE_DOWNLOAD"
    and fac: "classify d cu AND UPDATE_FACTORS d \<noteq> 0"
    and rd: "factorsReadable d sm"
    and dist: "distinct (map (key d) factor_objects)"
    and tc: "torqueConstant (mMotorParameters c) \<notin> {PosInf, NegInf}"
    and cur: "sm_get sm (key d MotorRatedCurrent) = Inr v"
    and p: "p = mMotorParameters c"
  shows "\<exists>c'. process d eng msg c = Inr (UpdatedObjects (classify d cu), c')
     \<and> mMotorParameters c' = p
     \<and> computeFactors d c' = Inr (mFactors c')
     \<and> (MotorParameters.encoderTicks p \<noteq> 0 \<longrightarrow>
          getRaw d PositionEncoderResolutionNum c' = Inr (MotorParameters.encoderTicks p)
          \<and> Factors.encoderTicks (mFactors c') = MotorParameters.encoderTicks p)
     \<and> (MotorParameters.encoderRevolutions p \<noteq> 0 \<longrightarrow>
          getRaw d PositionEncoderResolutionDen c' = Inr (MotorParameters.encoderRevolutions p)
          \<and> Factors.encoderRevolutions (mFactors c') = MotorParameters.encoderRevolutions p)
     \<and> (MotorParameters.gearMotorShaftRevolutions p \<noteq> 0 \<longrightarrow>
          getRaw d GearRatioNum c' = Inr (MotorParameters.gearMotorShaftRevolutions p)
          \<and> Factors.gearMotorShaftRevolutions (mFactors c') = MotorParameters.gearMotorShaftRevolutions p)
     \<and> (MotorParameters.gearDrivingShaftRevolutions p \<noteq> 0 \<longrightarrow>
          getRaw d GearRatioDen c' = Inr (MotorParameters.gearDrivingShaftRevolutions p)
          \<and> Factors.gearDrivingShaftRevolutions (mFactors c') = MotorParameters.gearDrivingShaftRevolutions p)
     \<and> (MotorParameters.feedLength p \<noteq> 0 \<longrightarrow>
          getRaw d FeedConstantNum c' = Inr (MotorParameters.feedLength p)
          \<and> Factors.feedLength (mFactors c') = MotorParameters.feedLength p)
     \<and> (MotorParameters.feedDrivingShaftRevolutions p \<noteq> 0 \<longrightarrow>
          getRaw d FeedConstantDen c' = Inr (MotorParameters.feedDrivingShaftRevolutions p)
          \<and> Factors.feedDrivingShaftRevolutions (mFactors c') = MotorParameters.feedDrivingShaftRevolutions p)
     \<and> (\<forall>k. torqueConstant p = Finite k \<and> torqueProductFits d (to_uint64 v) k \<longrightarrow>
          (\<exists>t. getRaw d MotorRatedTorque c' = Inr t
             \<and> ratedTorque (mFactors c') = Finite (of_int t / 1000)
             \<and> \<bar>of_int t - of_int (to_uint64 v) * k\<bar> < 1
             \<and> (of_int (to_uint64 v) * k \<in> \<int> \<longrightarrow> of_int t = of_int (to_uint64 v) * k)))"
proof -
  have pr: "process d eng msg c =
      ebind (setMotorParameters d p (c\<lparr>mCanOpen := sm\<rparr>))
        (\<lambda>c2. Inr (UpdatedObjects (classify d cu), c2))"
    using eng md fac by (simp add: process_def Let_def p)
  have "factorsReadable d (mCanOpen (c\<lparr>mCanOpen := sm\<rparr>))"
    and "torqueConstant p \<notin> {PosInf, NegInf}"
    and "getRaw d MotorRatedCurrent (c\<lparr>mCanOpen := sm\<rparr>) = Inr v"
    using rd tc cur by (simp_all add: getRaw_def p)
  from setMotorParameters_overrides [OF this(1) dist this(2) this(3)]
  show ?thesis
    unfolding pr by (elim exE conjE) (simp only: ebind_Inr, blast)
qed

theorem process_reapplies_motor_parameters_witness:
  "sample_refresh () (mCanOpen sample_controller) =
      (\<lparr> mode = PROCESSED_OTHER, updated = [(0x6091, 1)] \<rparr>,
       sm_set (0x6091, 1) 7 (mCanOpen sample_controller))
   \<and> classify sample_decls \<lparr> mode = PROCESSED_OTHER, updated = [(0x6091, 1)] \<rparr>
        AND UPDATE_FACTORS sample_decls \<noteq> 0
   \<and> sm_get (sm_set (0x6091, 1) 7 (mCanOpen sample_controller)) (0x6091, 1) = Inr 7
   \<and> torqueConstant sample_parameters = Finite 2
   \<and> torqueProductFits sample_decls 1 2
   \<and> (\<exists>c'. process sample_decls sample_refresh () sample_controller = Inr (UpdatedObjects 4, c')
        \<and> mMotorParameters c' = sample_parameters
        \<and> Factors.encoderTicks (mFactors c') = 4096
        \<and> Factors.encoderRevolutions (mFactors c') = 1
        \<and> Factors.gearMotorShaftRevolutions (mFactors c') = 100
        \<and> Factors.gearDrivingShaftRevolutions (mFactors c') = 1
        \<and> ratedTorque (mFactors c') = Finite (2 / 1000))"
proof -
  let ?sm = "sm_set (0x6091, 1) 7 (mCanOpen sample_controller)"
  let ?cu = "\<lparr> mode = PROCESSED_OTHER, updated = [(0x6091, 1)] \<rparr>"
  have e: "sample_refresh () (mCanOpen sample_controller) = (?cu, ?sm)"
    by (simp add: sample_refresh_def)
  have m: "mode ?cu \<noteq> PROCESSED_SDO_INITIATE_DOWNLOAD" by simp
  have f: "classify sample_decls ?cu AND UPDATE_FACTORS sample_decls \<noteq> 0"
    by (simp add: classify_sample_refresh) (simp add: sample_decls_def)
  have r: "factorsReadable sample_decls ?sm"
    using sample_controller_facts(3)
    by (simp add: factorsReadable_def factor_objects_def sm_set_def)
  have ds: "distinct (map (key sample_decls) factor_objects)"
    by (simp add: factor_objects_def sample_keys)
  have t: "torqueConstant (mMotorParameters sample_controller) \<notin> {PosInf, NegInf}"
    by (simp add: sample_controller_facts sample_parameters_def)
  have cr: "sm_get ?sm (key sample_decls MotorRatedCurrent) = Inr 1"
    using sample_controller_facts(4) by (simp add: getRaw_def sm_get_def sm_set_def sample_keys)
  have g: "sm_get ?sm (0x6091, 1) = Inr 7"
    by (simp add: sm_get_def sm_set_def)
  have k: "torqueConstant sample_parameters = Finite 2"
    by (simp add: sample_parameters_def)
  have pf: "torqueProductFits sample_decls 1 2"
    by (simp add: torqueProductFits_def sample_torque_type)
  from process_reapplies_motor_parameters [where eng = sample_refresh and msg = "()" and c = sample_controller
      and d = sample_decls, OF e m f r ds t cr sample_controller_facts(1) [symmetric]] e f g k pf
  show ?thesis
    by (simp add: classify_sample_refresh sample_parameters_def to_uint64_def) blast
qed

text \<open>
  C10. After \<^verbatim>\<open>process\<close> handles a message that updates the FACTORS group, the encoder
  scale factor of the cached factors is the default 1, whatever \<^verbatim>\<open>setEncoderScaleFactor\<close>
  had set: \<^verbatim>\<open>computeFactors\<close> starts from a fresh \<^verbatim>\<open>Factors\<close>.
\<close>

theorem process_resets_encoder_scale:
  assumes "eng msg (mCanOpen c) = (cu, sm)"
    and "mode cu \<noteq> PROCESSED_SDO_INITIATE_DOWNLOAD"
    and "classify d cu AND UPDATE_FACTORS d \<noteq> 0"
    and "factorsReadable d sm"
    and "torqueConstant (mMotorParameters c) \<notin> {PosInf, NegInf}"
  shows "\<exists>c'. process d eng msg c = Inr (UpdatedObjects (classify d cu), c')
     \<and> encoderScaleFactor (mFactors c') = Finite 1"
proof -
  have "\<exists>c'. setMotorParameters d (mMotorParameters c) (c\<lparr>mCanOpen := sm\<rparr>) = Inr c'
      \<and> encoderScaleFactor (mFactors c') = Finite 1"
    using assms(4,5) by (intro setMotorParameters_resets_scale) simp_all
  then show ?thesis
    using assms(1,2,3) by (auto simp add: process_def Let_def)
qed

theorem process_resets_encoder_scale_witness:
  "encoderScaleFactor (mFactors sample_controller) = Finite 2
   \<and> sample_refresh () (mCanOpen sample_controller) =
      (\<lparr> mode = PROCESSED_OTHER, updated = [(0x6091, 1)] \<rparr>,
       sm_set (0x6091, 1) 7 (mCanOpen sample_controller))
   \<and> classify sample_decls \<lparr> mode = PROCESSED_OTHER, updated = [(0x6091, 1)] \<rparr>
        AND UPDATE_FACTORS sample_decls \<noteq> 0
   \<and> (\<exists>c'. process sample_decls sample_refresh () sample_controller = Inr (UpdatedObjects 4, c')
        \<and> encoderScaleFactor (mFactors c') = Finite 1)"
proof -
  let ?sm = "sm_set (0x6091, 1) 7 (mCanOpen sample_controller)"
  let ?cu = "\<lparr> mode = PROCESSED_OTHER, updated = [(0x6091, 1)] \<rparr>"
  have e: "sample_refresh () (mCanOpen sample_controller) = (?cu, ?sm)"
    by (simp add: sample_refresh_def)
  have m: "mode ?cu \<noteq> PROCESSED_SDO_INITIATE_DOWNLOAD" by simp
  have f: "classify sample_decls ?cu AND UPDATE_FACTORS sample_decls \<noteq> 0"
    by (simp add: classify_sample_refresh) (simp add: sample_decls_def)
  have r: "factorsReadable sample_decls ?sm"
    using sample_controller_facts(3)
    by (simp add: factorsReadable_def factor_objects_def sm_set_def)
  have t: "torqueConstant (mMotorParameters sample_controller) \<notin> {PosInf, NegInf}"
    by (simp add: sample_controller_facts sample_parameters_def)
  from process_resets_encoder_scale [where eng = sample_refresh and msg = "()" and c = sample_controller
      and d = sample_decls, OF e m f r t] e f sample_controller_facts(2)
  show ?thesis
    by (simp add: classify_sample_refresh)
qed

text \<open>
  C4, as amended. The result of \<^verbatim>\<open>process\<close> is an acknowledgment exactly when the
  engine's mode is \<^verbatim>\<open>PROCESSED_SDO_INITIATE_DOWNLOAD\<close>. It then carries the index and
  sub-index of the first updated object, reports no group as updated, and the controller
  changes only by the engine's new state; otherwise it is the mask of the updated groups.
\<close>

theorem process_ack_or_groups:
  assumes eng: "eng msg (mCanOpen c) = (cu, sm)"
  shows "(\<forall>x xs. mode cu = PROCESSED_SDO_INITIATE_DOWNLOAD \<and> updated cu = x # xs \<longrightarrow>
            process d eng msg c = Inr (Ack (fst x) (snd x), c\<lparr>mCanOpen := sm\<rparr>))
     \<and> (\<forall>r c'. process d eng msg c = Inr (r, c') \<longrightarrow>
            (isAck r \<longleftrightarrow> mode cu = PROCESSED_SDO_INITIATE_DOWNLOAD)
          \<and> (isAck r \<longrightarrow> (\<forall>g. \<not> hasOneUpdated r g) \<and> c' = c\<lparr>mCanOpen := sm\<rparr>)
          \<and> (\<not> isAck r \<longrightarrow> r = UpdatedObjects (classify d cu)))"
  using eng
  by (auto simp add: process_def Let_def hasOneUpdated_def ebind_def
      split: list.splits sum.splits if_splits)

theorem process_ack_or_groups_witness:
  "sample_ack () (mCanOpen (Controller_new sample_decls 1)) =
     (\<lparr> mode = PROCESSED_SDO_INITIATE_DOWNLOAD, updated = [(0x6071, 0)] \<rparr>,
      mCanOpen (Controller_new sample_decls 1))
   \<and> process sample_decls sample_ack () (Controller_new sample_decls 1) =
       Inr (Ack 0x6071 0, Controller_new sample_decls 1)
   \<and> isAck (Ack 0x6071 0)
   \<and> \<not> hasOneUpdated (Ack 0x6071 0) (UPDATE_ID sample_decls TargetTorque)"
proof -
  let ?c = "Controller_new sample_decls 1"
  have e: "sample_ack () (mCanOpen ?c) =
     (\<lparr> mode = PROCESSED_SDO_INITIATE_DOWNLOAD, updated = [(0x6071, 0)] \<rparr>, mCanOpen ?c)"
    by (simp add: sample_ack_def)
  from process_ack_or_groups [where eng = sample_ack and msg = "()" and c = ?c and d = sample_decls, OF e] e
  show ?thesis
    by (simp add: hasOneUpdated_def)
qed

text \<open>
  C4, as stated, says the acknowledgment also carries the last-known value of the object.
  \<^verbatim>\<open>Update::Ack\<close> is called with the index and the sub-index only: two controllers whose
  dictionaries hold 5 and 7 for the torque target give the same acknowledgment.
\<close>

theorem process_ack_without_value:
  "map_sum id fst (process sample_decls sample_ack ()
       (setRaw sample_decls TargetTorque 5 (Controller_new sample_decls 1)))
     = Inr (Ack 0x6071 0)
   \<and> map_sum id fst (process sample_decls sample_ack ()
       (setRaw sample_decls TargetTorque 7 (Controller_new sample_decls 1)))
     = Inr (Ack 0x6071 0)
   \<and> getRaw sample_decls TargetTorque
       (setRaw sample_decls TargetTorque 5 (Controller_new sample_decls 1)) = Inr 5
   \<and> getRaw sample_decls TargetTorque
       (setRaw sample_decls TargetTorque 7 (Controller_new sample_decls 1)) = Inr 7"
  by (simp add: process_def sample_ack_def getRaw_setRaw)


section \<open>Properties of joint state, joint limits, conversions and the control PDO\<close>


lemma sample_state_keys:
  "key sample_decls PositionActualInternalValue = (0x6063, 0)"
  "key sample_decls VelocityActualValue = (0x606C, 0)"
  "key sample_decls CurrentActualValue = (0x6078, 0)"
  "key sample_decls SoftwarePositionLimitMin = (0x607D, 1)"
  "key sample_decls SoftwarePositionLimitMax = (0x607D, 2)"
  "key sample_decls MaxMotorSpeed = (0x6080, 0)"
  "key sample_decls MaxCurrent = (0x6073, 0)"
  by (simp_all add: sample_all_keys)

lemma sample_controller_factors:
  "mFactors sample_controller =
     \<lparr> encoderTicks = 4096, encoderRevolutions = 1, gearMotorShaftRevolutions = 100,
       gearDrivingShaftRevolutions = 1, feedLength = 1, feedDrivingShaftRevolutions = 1,
       ratedTorque = Finite (2 / 1000), ratedCurrent = Finite (1 / 1000),
       encoderScaleFactor = Finite 2 \<rparr>"
  by (simp add: sample_controller_def sample_parameters_def setMotorParameters_def
      applyTorqueConstant_def applyRatios_def setRawIf_def
      isUnknown_def unknown_def Controller_new_def setRaw_def sm_set_def
      getRaw_def sm_get_def ebind_def to_uint64_def double_to_raw_def sample_torque_type
      trunc_def recomputeFactors_def
      computeFactors_def Factors_update_def Factors_default_def sample_keys
      setEncoderScaleFactor_def)






text \<open>
  C6. \<^verbatim>\<open>getJointLimits()\<close>, when the four limit objects are readable and the conversions
  it needs succeed: raw position limits that are both 0 give the position range from minus
  infinity to infinity, a negative raw maximum speed gives the speed range from minus
  infinity to infinity, and the acceleration range is always from minus infinity to
  infinity.
\<close>

theorem getJointLimits_sentinels:
  assumes "getRaw d SoftwarePositionLimitMin c = Inr pmin"
    and "getRaw d SoftwarePositionLimitMax c = Inr pmax"
    and "getRaw d MaxMotorSpeed c = Inr spd"
    and "getRaw d MaxCurrent c = Inr cur"
    and "rawToTorque (mFactors c) cur = Inr tq"
    and "rawToCurrent (mFactors c) cur = Inr cu"
    and "\<not> (to_int32 pmin = 0 \<and> to_int32 pmax = 0) \<longrightarrow>
          rawToEncoder (mFactors c) (to_int32 pmin) = Inr lo
          \<and> rawToEncoder (mFactors c) (to_int32 pmax) = Inr hi"
    and "0 \<le> to_int32 spd \<longrightarrow> rawToEncoder (mFactors c) (to_int32 spd) = Inr sl"
  shows "\<exists>r. getJointLimits d c = Inr r
     \<and> (to_int32 pmin = 0 \<and> to_int32 pmax = 0 \<longrightarrow>
          position (range_min r) = NegInf \<and> position (range_max r) = PosInf)
     \<and> (to_int32 spd < 0 \<longrightarrow> speed (range_min r) = NegInf \<and> speed (range_max r) = PosInf)
     \<and> acceleration (range_min r) = NegInf \<and> acceleration (range_max r) = PosInf"
proof -
  have 1: "positionLimits d c r0 =
      Inr (r0\<lparr>range_min := (range_min r0)\<lparr>position :=
                 (if to_int32 pmin = 0 \<and> to_int32 pmax = 0 then NegInf else lo)\<rparr>,
               range_max := (range_max r0)\<lparr>position :=
                 (if to_int32 pmin = 0 \<and> to_int32 pmax = 0 then PosInf else hi)\<rparr>\<rparr>)" for r0
    using assms(1,2,7) by (auto simp add: positionLimits_def Let_def infinity_def)
  have 2: "speedLimits d c r0 =
      Inr (r0\<lparr>range_min := (range_min r0)\<lparr>speed :=
                 (if to_int32 spd < 0 then NegInf else dneg sl)\<rparr>,
               range_max := (range_max r0)\<lparr>speed :=
                 (if to_int32 spd < 0 then PosInf else sl)\<rparr>\<rparr>)" for r0
    using assms(3,8) by (auto simp add: speedLimits_def Let_def infinity_def)
  have 3: "torqueAndCurrentLimits d c r0 =
      Inr (r0\<lparr>range_min := (range_min r0)\<lparr>effort := dneg tq, raw := dneg cu\<rparr>,
               range_max := (range_max r0)\<lparr>effort := tq, raw := cu\<rparr>\<rparr>)" for r0
    using assms(4,5,6) by (simp add: torqueAndCurrentLimits_def)
  show ?thesis
    by (simp add: getJointLimits_def 1 2 3 accelerationLimits_def infinity_def)
qed

theorem getJointLimits_sentinels_witness:
  "getRaw sample_decls SoftwarePositionLimitMin sample_limits_controller = Inr 0
   \<and> getRaw sample_decls SoftwarePositionLimitMax sample_limits_controller = Inr 0
   \<and> getRaw sample_decls MaxMotorSpeed sample_limits_controller = Inr (- 1)
   \<and> getRaw sample_decls MaxCurrent sample_limits_controller = Inr 1500
   \<and> (\<exists>r. getJointLimits sample_decls sample_limits_controller = Inr r
        \<and> position (range_min r) = NegInf \<and> position (range_max r) = PosInf
        \<and> speed (range_min r) = NegInf \<and> speed (range_max r) = PosInf
        \<and> acceleration (range_min r) = NegInf \<and> acceleration (range_max r) = PosInf)
   \<and> getRaw sample_decls SoftwarePositionLimitMin sample_bounded_controller = Inr (- 4096)
   \<and> getRaw sample_decls SoftwarePositionLimitMax sample_bounded_controller = Inr 4096
   \<and> getRaw sample_decls MaxMotorSpeed sample_bounded_controller = Inr 2048
   \<and> (\<exists>r. getJointLimits sample_decls sample_bounded_controller = Inr r
        \<and> acceleration (range_min r) = NegInf \<and> acceleration (range_max r) = PosInf)"
proof -
  have f: "mFactors sample_limits_controller = mFactors sample_controller"
    "mFactors sample_bounded_controller = mFactors sample_controller"
    by (simp_all add: sample_limits_controller_def sample_bounded_controller_def mFactors_setRaw)
  have g: "getRaw sample_decls SoftwarePositionLimitMin sample_limits_controller = Inr 0"
    "getRaw sample_decls SoftwarePositionLimitMax sample_limits_controller = Inr 0"
    "getRaw sample_decls MaxMotorSpeed sample_limits_controller = Inr (- 1)"
    "getRaw sample_decls MaxCurrent sample_limits_controller = Inr 1500"
    by (simp_all add: sample_limits_controller_def getRaw_setRaw sample_state_keys)
  have h: "getRaw sample_decls SoftwarePositionLimitMin sample_bounded_controller = Inr (- 4096)"
    "getRaw sample_decls SoftwarePositionLimitMax sample_bounded_controller = Inr 4096"
    "getRaw sample_decls MaxMotorSpeed sample_bounded_controller = Inr 2048"
    "getRaw sample_decls MaxCurrent sample_bounded_controller = Inr 1500"
    by (simp_all add: sample_bounded_controller_def getRaw_setRaw sample_state_keys)
  have t: "rawToTorque (mFactors sample_limits_controller) 1500 = Inr (Finite (3 / 1000))"
    "rawToCurrent (mFactors sample_limits_controller) 1500 = Inr (Finite (3 / 2000))"
    by (simp_all add: f sample_controller_factors rawToTorque_def rawToCurrent_def isUnknown_def)
  have u: "rawToTorque (mFactors sample_bounded_controller) 1500 = Inr (Finite (3 / 1000))"
    "rawToCurrent (mFactors sample_bounded_controller) 1500 = Inr (Finite (3 / 2000))"
    by (simp_all add: f sample_controller_factors rawToTorque_def rawToCurrent_def isUnknown_def)
  have i: "to_int32 0 = 0" "to_int32 (- 1) = - 1" "to_int32 (- 4096) = - 4096"
    "to_int32 4096 = 4096" "to_int32 2048 = 2048"
    by (simp_all add: to_int32_def)
  have e: "rawToEncoder (mFactors sample_bounded_controller) (- 4096) = Inr (Finite (- (2 / 100)))"
    "rawToEncoder (mFactors sample_bounded_controller) 4096 = Inr (Finite (2 / 100))"
    "rawToEncoder (mFactors sample_bounded_controller) 2048 = Inr (Finite (1 / 100))"
    by (simp_all add: f sample_controller_factors rawToEncoder_def)
  have a: "\<exists>r. getJointLimits sample_decls sample_limits_controller = Inr r
        \<and> position (range_min r) = NegInf \<and> position (range_max r) = PosInf
        \<and> speed (range_min r) = NegInf \<and> speed (range_max r) = PosInf
        \<and> acceleration (range_min r) = NegInf \<and> acceleration (range_max r) = PosInf"
    using getJointLimits_sentinels [OF g t, of NaN NaN NaN] by (simp add: i)
  have b: "\<exists>r. getJointLimits sample_decls sample_bounded_controller = Inr r
        \<and> acceleration (range_min r) = NegInf \<and> acceleration (range_max r) = PosInf"
    using getJointLimits_sentinels [OF h u, of "Finite (- (2 / 100))" "Finite (2 / 100)" "Finite (1 / 100)"]
    by (simp add: i e)
  from a b g h show ?thesis by simp
qed

text \<open>
  C8. With ratios that are not zero and a finite scale factor that is not zero,
  \<^verbatim>\<open>rawFromEncoder\<close> undoes \<^verbatim>\<open>rawToEncoder\<close> for every raw value, exactly (doubles are
  exact reals here). The instance that follows has 4096 ticks per revolution, a gear of
  100:1 and a feed of 1:1.
\<close>

theorem rawFromEncoder_rawToEncoder:
  assumes "encoderTicks f \<noteq> 0" "gearMotorShaftRevolutions f \<noteq> 0"
    "feedDrivingShaftRevolutions f \<noteq> 0" "encoderRevolutions f \<noteq> 0"
    "gearDrivingShaftRevolutions f \<noteq> 0" "feedLength f \<noteq> 0"
    "encoderScaleFactor f = Finite s" "s \<noteq> 0"
  shows "\<exists>p. rawToEncoder f x = Inr p \<and> rawFromEncoder f p = Inr (Finite (of_int x))"
  using assms
  by (simp add: rawToEncoder_def rawFromEncoder_def isUnknown_def)

theorem rawFromEncoder_rawToEncoder_witness:
  "\<exists>p. rawToEncoder (Factors_default\<lparr>encoderTicks := 4096, gearMotorShaftRevolutions := 100\<rparr>) 12345 = Inr p
     \<and> rawFromEncoder (Factors_default\<lparr>encoderTicks := 4096, gearMotorShaftRevolutions := 100\<rparr>) p
         = Inr (Finite 12345)"
  using rawFromEncoder_rawToEncoder [of "Factors_default\<lparr>encoderTicks := 4096, gearMotorShaftRevolutions := 100\<rparr>" 1 12345]
  by (simp add: Factors_default_def)

text \<open>
  C9. \<^verbatim>\<open>configureControlPDO\<close> maps exactly one object, \<^verbatim>\<open>TargetPosition\<close>,
  \<^verbatim>\<open>TargetVelocity\<close> or \<^verbatim>\<open>TargetTorque\<close>, for the modes position, speed and effort, and
  raises \<^verbatim>\<open>std::invalid_argument\<close> for every other mode.
\<close>

theorem configureControlPDO_modes:
  "configureControlPDO d i POSITION p c =
     Inr (ConfigurePDO False i p
            [(OBJECT_ID d TargetPosition, OBJECT_SUB_ID d TargetPosition, OBJECT_SIZE d TargetPosition)],
          c\<lparr>mCanOpen := declareRPDOMapping i
            [(OBJECT_ID d TargetPosition, OBJECT_SUB_ID d TargetPosition, OBJECT_SIZE d TargetPosition)]
            (mCanOpen c)\<rparr>)
   \<and> configureControlPDO d i SPEED p c =
     Inr (ConfigurePDO False i p
            [(OBJECT_ID d TargetVelocity, OBJECT_SUB_ID d TargetVelocity, OBJECT_SIZE d TargetVelocity)],
          c\<lparr>mCanOpen := declareRPDOMapping i
            [(OBJECT_ID d TargetVelocity, OBJECT_SUB_ID d TargetVelocity, OBJECT_SIZE d TargetVelocity)]
            (mCanOpen c)\<rparr>)
   \<and> configureControlPDO d i EFFORT p c =
     Inr (ConfigurePDO False i p
            [(OBJECT_ID d TargetTorque, OBJECT_SUB_ID d TargetTorque, OBJECT_SIZE d TargetTorque)],
          c\<lparr>mCanOpen := declareRPDOMapping i
            [(OBJECT_ID d TargetTorque, OBJECT_SUB_ID d TargetTorque, OBJECT_SIZE d TargetTorque)]
            (mCanOpen c)\<rparr>)
   \<and> (control_mode \<notin> {POSITION, SPEED, EFFORT} \<longrightarrow>
        configureControlPDO d i control_mode p c = Inl invalid_argument)"
  by (cases control_mode)
    (simp_all add: configureControlPDO_def controlMapping_def PDOMapping_add_def)

theorem configureControlPDO_modes_witness:
  "RAW \<notin> {POSITION, SPEED, EFFORT}
   \<and> configureControlPDO sample_decls 0 RAW () (Controller_new sample_decls 1) = Inl invalid_argument
   \<and> configureControlPDO sample_decls 0 EFFORT () (Controller_new sample_decls 1) =
       Inr (ConfigurePDO False 0 () [(0x6071, 0, 2)],
            (Controller_new sample_decls 1)\<lparr>mCanOpen :=
               declareRPDOMapping 0 [(0x6071, 0, 2)] (mCanOpen (Controller_new sample_decls 1))\<rparr>)"
  using configureControlPDO_modes [of sample_decls 0 "()" "Controller_new sample_decls 1" RAW]
  by (simp add: sample_decls_def sample_sub_id_def sample_size_def)

end
